theory Spec2Isabelle
  imports Complex_Main "HOL-Library.AList"
begin

section \<open>Python strings\<close>

text \<open>
  A Python \<open>str\<close> is a sequence of Unicode code points and \<open>len\<close> counts code points.
  A code point is modelled by its number, a text by the list of its code points.
\<close>

type_synonym codepoint = nat
type_synonym pystr = "codepoint list"

definition of_ascii :: "string \<Rightarrow> pystr" where
  "of_ascii s = map of_char s"

text \<open>
  The whitespace of \<open>str.split()\<close>, \<open>str.strip()\<close> and of the regular expression class
  \<open>\s\<close> on \<open>str\<close> patterns: the code points for which CPython's
  \<open>Py_UNICODE_ISSPACE\<close> holds.
\<close>

definition is_space :: "codepoint \<Rightarrow> bool" where
  "is_space c \<longleftrightarrow>
     (9 \<le> c \<and> c \<le> 13) \<or> (28 \<le> c \<and> c \<le> 32) \<or> c = 133 \<or> c = 160 \<or> c = 5760 \<or>
     (8192 \<le> c \<and> c \<le> 8202) \<or> c = 8232 \<or> c = 8233 \<or> c = 8239 \<or> c = 8287 \<or> c = 12288"

definition SP :: codepoint where
  "SP = 32"

text \<open>\<open>s.strip()\<close>\<close>

definition py_strip :: "pystr \<Rightarrow> pystr" where
  "py_strip s = rev (dropWhile is_space (rev (dropWhile is_space s)))"

text \<open>\<open>s.split()\<close>: the maximal runs of non-whitespace, in order.\<close>

fun split_acc :: "pystr \<Rightarrow> pystr \<Rightarrow> pystr list" where
  "split_acc w [] = (if w = [] then [] else [w])"
| "split_acc w (c # cs) =
     (if is_space c then (if w = [] then split_acc [] cs else w # split_acc [] cs)
      else split_acc (w @ [c]) cs)"

definition py_split :: "pystr \<Rightarrow> pystr list" where
  "py_split s = split_acc [] s"

text \<open>\<open>sep.join(words)\<close>\<close>

fun py_join :: "pystr \<Rightarrow> pystr list \<Rightarrow> pystr" where
  "py_join sep [] = []"
| "py_join sep [w] = w"
| "py_join sep (w # ws) = w @ sep @ py_join sep ws"

text \<open>\<open>xs[k:]\<close> for a list and an integer \<open>k\<close>: a negative \<open>k\<close> counts from the end.\<close>

definition py_slice_from :: "'a list \<Rightarrow> int \<Rightarrow> 'a list" where
  "py_slice_from xs k =
     (if k < 0 then drop (nat (max 0 (int (length xs) + k))) xs else drop (nat k) xs)"

text \<open>
  \<open>re.sub\<close> with a pattern \<open>[class]{n,}\<close> (\<open>[class]+\<close> is \<open>n = 1\<close>): scanning from
  the left, every maximal run of at least \<open>n\<close> characters of the class is replaced.
\<close>

function sub_runs :: "(codepoint \<Rightarrow> bool) \<Rightarrow> nat \<Rightarrow> pystr \<Rightarrow> pystr \<Rightarrow> pystr" where
  "sub_runs P n rep [] = []"
| "sub_runs P n rep (c # cs) =
     (if P c
      then (if n \<le> length (takeWhile P (c # cs)) then rep else takeWhile P (c # cs))
             @ sub_runs P n rep (dropWhile P cs)
      else c # sub_runs P n rep cs)"
  by pat_completeness auto
termination
  by (relation "measure (\<lambda>(P, n, rep, s). length s)")
     (auto simp: less_Suc_eq_le length_dropWhile_le)

text \<open>
  \<open>re.split(r'(?<=[.!?])\s+', text)\<close>: the text is cut at every maximal whitespace run
  that directly follows one of \<open>.\<close>, \<open>!\<close>, \<open>?\<close>; the run is dropped, the
  punctuation stays with the piece before it.
\<close>

definition is_terminal :: "codepoint \<Rightarrow> bool" where
  "is_terminal c \<longleftrightarrow> c = 46 \<or> c = 33 \<or> c = 63"

function split_sentences_acc :: "pystr \<Rightarrow> pystr \<Rightarrow> pystr list" where
  "split_sentences_acc cur [] = [cur]"
| "split_sentences_acc cur (c # cs) =
     (if is_terminal c \<and> cs \<noteq> [] \<and> is_space (hd cs)
      then (cur @ [c]) # split_sentences_acc [] (dropWhile is_space cs)
      else split_sentences_acc (cur @ [c]) cs)"
  by pat_completeness auto
termination
  by (relation "measure (\<lambda>(cur, s). length s)")
     (auto simp: less_Suc_eq_le length_dropWhile_le)

definition split_sentences :: "pystr \<Rightarrow> pystr list" where
  "split_sentences text = split_sentences_acc [] text"


section \<open>DocumentProcessor: cleaning and chunking\<close>

text \<open>
  The two settings a \<open>DocumentProcessor\<close> reads in its constructor
  (\<open>settings.max_chunk_size\<close>, \<open>settings.chunk_overlap\<close>).
\<close>

record DocumentProcessor =
  chunk_size :: int
  chunk_overlap :: int

text \<open>
  The regular expression class \<open>\w\<close>: on ASCII the letters, the digits and the
  underscore; beyond ASCII the alphanumeric code points of the Unicode database of the
  Python runtime, which is no part of the repository and is taken as the parameter \<open>ua\<close>.
\<close>

definition is_word :: "(codepoint \<Rightarrow> bool) \<Rightarrow> codepoint \<Rightarrow> bool" where
  "is_word ua c \<longleftrightarrow>
     (if c < 128
      then (48 \<le> c \<and> c \<le> 57) \<or> (65 \<le> c \<and> c \<le> 90) \<or> (97 \<le> c \<and> c \<le> 122) \<or> c = 95
      else ua c)"

text \<open>The punctuation kept by \<open>clean_text\<close>: \<open>. , ! ? ; : - ( ) [ ] " '\<close>\<close>

definition kept_punct :: "codepoint \<Rightarrow> bool" where
  "kept_punct c \<longleftrightarrow> c \<in> {46, 44, 33, 63, 59, 58, 45, 40, 41, 91, 93, 34, 39}"

definition clean_text :: "(codepoint \<Rightarrow> bool) \<Rightarrow> pystr \<Rightarrow> pystr" where
  "clean_text ua text =
     (let t1 = sub_runs is_space 1 [SP] text;
          t2 = sub_runs (\<lambda>c. \<not> (is_word ua c \<or> is_space c \<or> kept_punct c)) 1 [SP] t1;
          t3 = sub_runs (\<lambda>c. c = 46) 2 [46] t2;
          t4 = sub_runs (\<lambda>c. c = 33 \<or> c = 63) 2 [33] t3
      in py_strip t4)"

text \<open>
  The inner loop of \<open>split_into_chunks\<close> over the words of a sentence longer than
  \<open>chunk_size\<close>. The loop state is the list \<open>chunks\<close> and the buffer \<open>word_chunk\<close>.
\<close>

definition word_step :: "int \<Rightarrow> pystr list \<times> pystr \<Rightarrow> pystr \<Rightarrow> pystr list \<times> pystr" where
  "word_step mx st word =
     (case st of (chunks, word_chunk) \<Rightarrow>
        if int (length (word_chunk @ [SP] @ word)) \<le> mx
        then (chunks, if word_chunk \<noteq> [] then word_chunk @ [SP] @ word else word)
        else (if word_chunk \<noteq> [] then chunks @ [py_strip word_chunk] else chunks, word))"

text \<open>The outer loop over the sentences; the state is \<open>chunks\<close> and \<open>current_chunk\<close>.\<close>

definition sentence_step :: "int \<Rightarrow> pystr list \<times> pystr \<Rightarrow> pystr \<Rightarrow> pystr list \<times> pystr" where
  "sentence_step mx st sentence =
     (case st of (chunks, current_chunk) \<Rightarrow>
        if int (length (current_chunk @ [SP] @ sentence)) \<le> mx
        then (chunks,
              if current_chunk \<noteq> [] then current_chunk @ [SP] @ sentence else sentence)
        else
          (let chunks1 =
                 (if current_chunk \<noteq> [] then chunks @ [py_strip current_chunk] else chunks)
           in if int (length sentence) \<le> mx then (chunks1, sentence)
              else foldl (word_step mx) (chunks1, []) (py_split sentence)))"

text \<open>
  The chunks before the overlap is added (the value of \<open>chunks\<close> when the
  overlap loop starts), for a text that did not take the early return.
\<close>

definition base_chunks :: "int \<Rightarrow> pystr \<Rightarrow> pystr list" where
  "base_chunks mx text =
     (case foldl (sentence_step mx) ([], []) (split_sentences text) of
        (chunks, current_chunk) \<Rightarrow>
          if current_chunk \<noteq> [] then chunks @ [py_strip current_chunk] else chunks)"

text \<open>
  The overlap loop. \<open>prev\<close> is \<open>chunks[i-1]\<close>, the chunk before the overlap was added;
  \<open>-self.chunk_overlap//10\<close> is \<open>(-self.chunk_overlap)//10\<close>, a floor division.
\<close>

definition overlap_prefix :: "int \<Rightarrow> pystr \<Rightarrow> pystr" where
  "overlap_prefix overlap prev =
     py_join [SP] (py_slice_from (py_split prev) ((- overlap) div 10))"

fun overlap_loop :: "int \<Rightarrow> pystr \<Rightarrow> pystr list \<Rightarrow> pystr list" where
  "overlap_loop overlap prev [] = []"
| "overlap_loop overlap prev (chunk # rest) =
     (if overlap > 0 then overlap_prefix overlap prev @ [SP] @ chunk else chunk)
       # overlap_loop overlap chunk rest"

definition add_overlap :: "int \<Rightarrow> pystr list \<Rightarrow> pystr list" where
  "add_overlap overlap chunks =
     (case chunks of [] \<Rightarrow> [] | chunk # rest \<Rightarrow> chunk # overlap_loop overlap chunk rest)"

definition split_into_chunks :: "DocumentProcessor \<Rightarrow> pystr \<Rightarrow> pystr list" where
  "split_into_chunks dp text =
     (if text = [] \<or> int (length text) < chunk_size dp
      then (if text \<noteq> [] then [text] else [])
      else add_overlap (chunk_overlap dp) (base_chunks (chunk_size dp) text))"

text \<open>
  The chunking stage of \<open>process_document\<close> on the extracted text: no text gives no
  chunks, otherwise the text is cleaned and the cleaned text is split.
\<close>

definition chunk_document :: "(codepoint \<Rightarrow> bool) \<Rightarrow> DocumentProcessor \<Rightarrow> pystr \<Rightarrow> pystr list" where
  "chunk_document ua dp text =
     (if text = [] then [] else split_into_chunks dp (clean_text ua text))"

text \<open>
  The parameters the configuration accepts: \<open>max_chunk_size\<close> has \<open>ge=100\<close> and
  \<open>le=8000\<close>, \<open>chunk_overlap\<close> has \<open>ge=0\<close>, and \<open>validate_ml_config\<close> raises unless
  the overlap is less than the chunk size.
\<close>

definition valid_chunking :: "DocumentProcessor \<Rightarrow> bool" where
  "valid_chunking dp \<longleftrightarrow>
     100 \<le> chunk_size dp \<and> chunk_size dp \<le> 8000 \<and> 0 \<le> chunk_overlap dp \<and>
     chunk_overlap dp < chunk_size dp"


section \<open>Exceptions\<close>

text \<open>A Python exception: the name of its class and \<open>str(e)\<close>.\<close>

datatype py_exception = PyExc (exc_class: string) (exc_msg: string)


section \<open>EmbeddingCache\<close>

text \<open>
  A vector is the list of its components. What a file of the cache directory holds:
  the pickle of a vector, or bytes that \<open>pickle.load\<close> rejects.
\<close>

type_synonym vector = "real list"

datatype cache_file = Pickled vector | Garbage

definition pickle_load :: "cache_file \<Rightarrow> py_exception + vector" where
  "pickle_load f =
     (case f of Pickled v \<Rightarrow> Inr v
      | Garbage \<Rightarrow> Inl (PyExc ''UnpicklingError'' ''invalid load key''))"

text \<open>
  The two tiers: the dict \<open>memory_cache\<close> and the files of \<open>cache_dir\<close>, both keyed by
  the hexadecimal digest of the text. A dict is an association list with distinct keys in
  insertion order.
\<close>

record EmbeddingCache =
  memory_cache :: "(pystr \<times> vector) list"
  cache_dir :: "(pystr \<times> cache_file) list"

definition max_memory_items :: nat where
  "max_memory_items = 1000"

text \<open>
  \<open>__init__\<close>: the memory tier starts empty; the directory is created unless it exists,
  so it holds the files \<open>files\<close> left by earlier runs.
\<close>

definition EmbeddingCache_init :: "(pystr \<times> cache_file) list \<Rightarrow> EmbeddingCache" where
  "EmbeddingCache_init files = \<lparr>memory_cache = [], cache_dir = files\<rparr>"

text \<open>
  \<open>get\<close>. The parameter \<open>text_hash\<close> is \<open>_get_text_hash\<close>, the SHA-256 digest of
  \<open>hashlib\<close>, which is no part of the repository. The handler of a failed load calls
  \<open>cache_file.unlink()\<close> and nothing guards that call: whether the file system removes
  the file (it may be locked, or removed already by another call) is the parameter
  \<open>u\<close>, and an exception of \<open>unlink\<close> leaves \<open>get\<close>.
\<close>

datatype unlink_outcome = Unlinked | UnlinkFails

definition cache_get ::
  "(pystr \<Rightarrow> pystr) \<Rightarrow> unlink_outcome \<Rightarrow> pystr \<Rightarrow> EmbeddingCache
     \<Rightarrow> (py_exception + vector option) \<times> EmbeddingCache" where
  "cache_get text_hash u text c =
     (let h = text_hash text in
      case map_of (memory_cache c) h of
        Some v \<Rightarrow> (Inr (Some v), c)
      | None \<Rightarrow>
          (case map_of (cache_dir c) h of
             None \<Rightarrow> (Inr None, c)
           | Some f \<Rightarrow>
               (case pickle_load f of
                  Inr embedding \<Rightarrow>
                    (Inr (Some embedding),
                     if length (memory_cache c) < max_memory_items
                     then c\<lparr>memory_cache := AList.update h embedding (memory_cache c)\<rparr>
                     else c)
                | Inl e \<Rightarrow>
                    (case u of
                       Unlinked \<Rightarrow> (Inr None, c\<lparr>cache_dir := AList.delete h (cache_dir c)\<rparr>)
                     | UnlinkFails \<Rightarrow>
                         (Inl (PyExc ''OSError'' ''cannot remove the cache file''), c)))))"

text \<open>
  \<open>put\<close>. Writing the file can fail, and \<open>put\<close> only logs that: either \<open>open\<close> raises
  and the directory is as before, or \<open>open\<close> has created or truncated the file and
  \<open>pickle.dump\<close> raises, which leaves a file that does not load.
\<close>

datatype write_outcome = Written | OpenFails | DumpFails

definition cache_put ::
  "(pystr \<Rightarrow> pystr) \<Rightarrow> write_outcome \<Rightarrow> pystr \<Rightarrow> vector \<Rightarrow> EmbeddingCache \<Rightarrow> EmbeddingCache" where
  "cache_put text_hash w text embedding c =
     (let h = text_hash text;
          c1 = (if length (memory_cache c) < max_memory_items
                then c\<lparr>memory_cache := AList.update h embedding (memory_cache c)\<rparr>
                else c)
      in case w of
           Written \<Rightarrow> c1\<lparr>cache_dir := AList.update h (Pickled embedding) (cache_dir c1)\<rparr>
         | OpenFails \<Rightarrow> c1
         | DumpFails \<Rightarrow> c1\<lparr>cache_dir := AList.update h Garbage (cache_dir c1)\<rparr>)"





section \<open>Settings and request validation\<close>

record Settings =
  default_limit :: int
  similarity_threshold :: real
  embedding_dimension :: nat

text \<open>The defaults of the fields of \<open>Settings\<close>.\<close>

definition default_settings :: Settings where
  "default_settings =
     \<lparr>default_limit = 10, similarity_threshold = 0.5, embedding_dimension = 384\<rparr>"

text \<open>The constraints of the fields: \<open>ge=1, le=100\<close> and \<open>ge=0.0, le=1.0\<close>.\<close>

definition valid_settings :: "Settings \<Rightarrow> bool" where
  "valid_settings st \<longleftrightarrow>
     1 \<le> default_limit st \<and> default_limit st \<le> 100 \<and>
     0 \<le> similarity_threshold st \<and> similarity_threshold st \<le> 1"

datatype http_exception = HTTPException (status_code: nat) (detail: string)

record validated_params =
  v_limit :: int
  v_score_threshold :: real

definition validate_search_limits ::
  "Settings \<Rightarrow> int option \<Rightarrow> real option \<Rightarrow> http_exception + validated_params" where
  "validate_search_limits st limit score_threshold =
     (case (case limit of
              Some l \<Rightarrow>
                if l \<le> 0 then Inl (HTTPException 400 ''Limit must be greater than 0'')
                else if l > 100 then Inl (HTTPException 400 ''Limit cannot exceed 100 results'')
                else Inr l
            | None \<Rightarrow> Inr (default_limit st)) of
        Inl e \<Rightarrow> Inl e
      | Inr l \<Rightarrow>
          (case score_threshold of
             Some t \<Rightarrow>
               if \<not> (0 \<le> t \<and> t \<le> 1)
               then Inl (HTTPException 400 ''Score threshold must be between 0.0 and 1.0'')
               else Inr \<lparr>v_limit = l, v_score_threshold = t\<rparr>
           | None \<Rightarrow> Inr \<lparr>v_limit = l, v_score_threshold = similarity_threshold st\<rparr>))"


section \<open>Search results\<close>

text \<open>The values a metadata dict holds in this code.\<close>

datatype pyval =
  PStr pystr | PFloat real | PInt int | PBool bool | PStrList "pystr list" | PNone

type_synonym pydict = "(pystr \<times> pyval) list"

record SearchResult =
  chunk_id :: pystr
  rtext :: pystr
  score :: real
  source_file :: pystr
  metadata :: pydict

definition k_file_name :: pystr where
  "k_file_name = of_ascii ''file_name''"

definition k_keyword_matches :: pystr where
  "k_keyword_matches = of_ascii ''keyword_matches''"

definition k_keyword_boost :: pystr where
  "k_keyword_boost = of_ascii ''keyword_boost''"

definition k_original_score :: pystr where
  "k_original_score = of_ascii ''original_score''"

definition k_text_length_words :: pystr where
  "k_text_length_words = of_ascii ''text_length_words''"

definition k_diversity_penalty :: pystr where
  "k_diversity_penalty = of_ascii ''diversity_penalty''"

text \<open>\<open>s.split('/')[-1]\<close>: what follows the last slash.\<close>

definition after_last_slash :: "pystr \<Rightarrow> pystr" where
  "after_last_slash s = rev (takeWhile (\<lambda>c. c \<noteq> 47) (rev s))"

text \<open>
  The constructor of the dataclass with its \<open>__post_init__\<close>: the score is clamped to
  \<open>[0, 1]\<close>, and \<open>file_name\<close> is filled in from a non-empty \<open>source_file\<close>.
\<close>

definition mk_SearchResult :: "pystr \<Rightarrow> pystr \<Rightarrow> real \<Rightarrow> pystr \<Rightarrow> pydict \<Rightarrow> SearchResult" where
  "mk_SearchResult cid txt sc src md =
     \<lparr>chunk_id = cid, rtext = txt, score = max 0 (min 1 sc), source_file = src,
      metadata =
        (if map_of md k_file_name = None \<and> src \<noteq> []
         then AList.update k_file_name (PStr (after_last_slash src)) md
         else md)\<rparr>"


section \<open>The collaborators and the state of the services\<close>

text \<open>
  A metadata filter maps a field to a value. \<open>search_similar\<close> tells apart a string, a
  number (\<open>int\<close>, \<open>float\<close> and, being an \<open>int\<close>, \<open>bool\<close>), a dict with the key
  \<open>range\<close> and anything else. The value under \<open>range\<close> is read with \<open>.get('gte')\<close> and
  \<open>.get('lte')\<close>: it is a dict, whose two bounds may be missing or hold any scalar, or it
  is no dict.
\<close>

datatype pyscalar = VStr pystr | VInt int | VFloat real | VBool bool

datatype filter_value =
  FScalar pyscalar
  | FRange "pyscalar option" "pyscalar option"
  | FRangeNoDict
  | FOther

type_synonym filters = "(pystr \<times> filter_value) list"

datatype condition = MatchValue pystr pyscalar | Range pystr "pyscalar option" "pyscalar option"

text \<open>A point the index returns: its score and its payload, a dict.\<close>

record hit =
  hit_score :: real
  hit_payload :: pydict

text \<open>
  The stages of one \<open>search\<close> call and the calls it makes to the collaborators. The trace
  is not in the source: it records, in order, which stage was entered and which
  collaborator was called with which arguments.
\<close>

datatype stage = VALIDATE | CACHE_LOOKUP | EMBED | VECTOR_QUERY | RANK | CACHE_STORE

datatype event =
  Stage stage
  | ModelLoad
  | ProviderEncode pystr
  | IndexSearch vector "condition list option" int real

text \<open>What the constructor of the client and its first request do, in \<open>_get_client\<close>.\<close>

datatype connect_outcome = Connected | ConstructorFails string | HealthCheckFails string

text \<open>
  What the code reads from outside the repository during one call: the settings, the
  digest, \<open>str.lower\<close>, whether the constructor of the model succeeds (\<open>Some msg\<close> is the
  exception it raises), the result of \<open>model.encode\<close> for a text (an exception or the
  vector of its first row), whether the cache file can be written and removed, whether
  the client of the index connects, which values the constructors \<open>MatchValue\<close> and
  \<open>Range\<close> of the client library accept (they validate their arguments and raise
  otherwise), the answer of the index to a query, and the clock at the cache lookup and
  at the cache store.
\<close>

record Env =
  settings :: Settings
  text_hash :: "pystr \<Rightarrow> pystr"
  str_lower :: "pystr \<Rightarrow> pystr"
  model_init :: "string option"
  model_encode :: "pystr \<Rightarrow> py_exception + vector"
  disk_write :: write_outcome
  disk_unlink :: unlink_outcome
  qdrant_connect :: connect_outcome
  match_value_valid :: "pyscalar \<Rightarrow> bool"
  range_valid :: "pyscalar option \<Rightarrow> pyscalar option \<Rightarrow> bool"
  client_search :: "vector \<Rightarrow> condition list option \<Rightarrow> int \<Rightarrow> real \<Rightarrow> py_exception + hit list"
  time_lookup :: real
  time_store :: real

text \<open>
  The mutable state: \<open>SearchService.query_cache\<close> (the key is the triple that the source
  formats as \<open>f"{normalized_query}:{limit}:{score_threshold}"\<close>), the cache of the
  \<open>EmbeddingService\<close>, whether its model is loaded, whether \<open>VectorStoreService.client\<close>
  is set, and the trace.
\<close>

type_synonym cache_key = "pystr \<times> int option \<times> real option"

record System =
  query_cache :: "(cache_key \<times> SearchResult list \<times> real) list"
  embedding_cache :: EmbeddingCache
  model_loaded :: bool
  client :: bool
  trace :: "event list"

definition cache_ttl :: real where
  "cache_ttl = 300"

definition emit :: "event \<Rightarrow> System \<Rightarrow> System" where
  "emit e s = s\<lparr>trace := trace s @ [e]\<rparr>"


section \<open>VectorStoreService.search_similar\<close>

text \<open>\<open>x or d\<close> on an optional number: \<open>None\<close> and zero are false.\<close>

definition py_or :: "'a::zero option \<Rightarrow> 'a \<Rightarrow> 'a" where
  "py_or x d = (case x of None \<Rightarrow> d | Some v \<Rightarrow> if v = 0 then d else v)"

text \<open>
  \<open>_get_client\<close>: a client that is set is returned. Otherwise the constructor runs and
  the collections are requested; an exception of either is raised again as a
  \<open>ConnectionError\<close>, and after a failed request the attribute \<open>client\<close> stays set.
\<close>

definition get_client :: "Env \<Rightarrow> System \<Rightarrow> (py_exception + unit) \<times> System" where
  "get_client env s =
     (if client s then (Inr (), s)
      else (case qdrant_connect env of
              Connected \<Rightarrow> (Inr (), s\<lparr>client := True\<rparr>)
            | ConstructorFails msg \<Rightarrow>
                (Inl (PyExc ''ConnectionError''
                        (''Could not establish connection to Qdrant: '' @ msg)), s)
            | HealthCheckFails msg \<Rightarrow>
                (Inl (PyExc ''ConnectionError''
                        (''Could not establish connection to Qdrant: '' @ msg)),
                 s\<lparr>client := True\<rparr>)))"

text \<open>
  The loop over the items of the filter dict. A constructor of the client library that
  rejects its argument raises, and so does \<open>.get\<close> on a \<open>range\<close> that is no dict; the loop
  ends there.
\<close>

fun filter_conditions :: "Env \<Rightarrow> filters \<Rightarrow> py_exception + condition list" where
  "filter_conditions env [] = Inr []"
| "filter_conditions env ((field, FScalar v) # fs) =
     (if match_value_valid env v
      then (case filter_conditions env fs of
              Inl e \<Rightarrow> Inl e | Inr cs \<Rightarrow> Inr (MatchValue field v # cs))
      else Inl (PyExc ''ValidationError'' ''MatchValue''))"
| "filter_conditions env ((field, FRange g l) # fs) =
     (if range_valid env g l
      then (case filter_conditions env fs of
              Inl e \<Rightarrow> Inl e | Inr cs \<Rightarrow> Inr (Range field g l # cs))
      else Inl (PyExc ''ValidationError'' ''Range''))"
| "filter_conditions env ((field, FRangeNoDict) # fs) =
     Inl (PyExc ''AttributeError'' ''object has no attribute get'')"
| "filter_conditions env ((field, FOther) # fs) = filter_conditions env fs"

text \<open>The block that prepares \<open>qdrant_filter\<close>.\<close>

definition qdrant_filter :: "Env \<Rightarrow> filters option \<Rightarrow> py_exception + condition list option" where
  "qdrant_filter env fltrs =
     (case fltrs of
        None \<Rightarrow> Inr None
      | Some fs \<Rightarrow>
          if fs = [] then Inr None
          else (case filter_conditions env fs of
                  Inl e \<Rightarrow> Inl e
                | Inr conditions \<Rightarrow> Inr (if conditions \<noteq> [] then Some conditions else None)))"

text \<open>
  \<open>payload.get(k, d)\<close> for the three keys that \<open>DocumentChunk.to_dict\<close> writes as strings.
\<close>

definition payload_str :: "pydict \<Rightarrow> pystr \<Rightarrow> pystr \<Rightarrow> pystr" where
  "payload_str payload k d =
     (case map_of payload k of Some (PStr v) \<Rightarrow> v | Some other \<Rightarrow> d | None \<Rightarrow> d)"

definition hit_result :: "hit \<Rightarrow> SearchResult" where
  "hit_result h =
     mk_SearchResult
       (payload_str (hit_payload h) (of_ascii ''chunk_id'') (of_ascii ''unknown''))
       (payload_str (hit_payload h) (of_ascii ''text'') [])
       (hit_score h)
       (payload_str (hit_payload h) (of_ascii ''source_file'') [])
       (filter (\<lambda>(k, v). k \<notin> {of_ascii ''text'', of_ascii ''chunk_id'', of_ascii ''source_file''})
          (hit_payload h))"

text \<open>
  \<open>search_similar\<close>. The two defaulting lines come first; everything after them is
  inside \<open>try\<close>, whose handler returns the empty list: when the client does not connect
  or the filter cannot be built the index is not asked, and when the request itself
  raises there are no results either.
\<close>

definition search_similar ::
  "Env \<Rightarrow> vector \<Rightarrow> int option \<Rightarrow> real option \<Rightarrow> filters option \<Rightarrow> System
     \<Rightarrow> SearchResult list \<times> System" where
  "search_similar env query_embedding limit score_threshold fltrs s =
     (let limit1 = py_or limit (default_limit (settings env));
          score_threshold1 = py_or score_threshold (similarity_threshold (settings env))
      in case get_client env s of
           (Inl e, s1) \<Rightarrow> ([], s1)
         | (Inr u, s1) \<Rightarrow>
             (case qdrant_filter env fltrs of
                Inl e \<Rightarrow> ([], s1)
              | Inr qf \<Rightarrow>
                  (let s2 = emit (IndexSearch query_embedding qf limit1 score_threshold1) s1
                   in case client_search env query_embedding qf limit1 score_threshold1 of
                        Inr hits \<Rightarrow> (map hit_result hits, s2)
                      | Inl e \<Rightarrow> ([], s2))))"


section \<open>SearchService._post_process_results\<close>

text \<open>
  The first loop, for one result. A Python set is modelled by a list without duplicates;
  the order of \<open>list(common_words)\<close> is the order of the query here.
\<close>

definition enhance :: "(pystr \<Rightarrow> pystr) \<Rightarrow> pystr \<Rightarrow> SearchResult \<Rightarrow> SearchResult" where
  "enhance lower query result =
     (let query_words = remdups (py_split (lower query));
          e0 = mk_SearchResult (chunk_id result) (rtext result) (score result)
                 (source_file result) (metadata result);
          text_words = py_split (lower (rtext result));
          common_words = filter (\<lambda>w. w \<in> set text_words) query_words;
          keyword_boost =
            min 0.1 (real (length common_words) / real (length query_words) * 0.1);
          e1 = (if common_words \<noteq> []
                then e0\<lparr>score := min 1 (score e0 + keyword_boost),
                        metadata :=
                          AList.update k_keyword_boost (PFloat keyword_boost)
                            (AList.update k_keyword_matches (PStrList common_words)
                               (metadata e0))\<rparr>
                else e0);
          text_length = length (py_split (rtext result));
          e2 = (if text_length < 10 then e1\<lparr>score := score e1 * 0.9\<rparr>
                else if text_length > 500 then e1\<lparr>score := score e1 * 0.95\<rparr>
                else e1)
      in e2\<lparr>metadata :=
              AList.update k_text_length_words (PInt (int text_length))
                (AList.update k_original_score (PFloat (score result)) (metadata e2))\<rparr>)"

text \<open>\<open>sorted(..., key=lambda r: r.score, reverse=True)\<close>: stable, highest score first.\<close>

definition sort_by_score :: "SearchResult list \<Rightarrow> SearchResult list" where
  "sort_by_score rs = sort_key (\<lambda>r. - score r) rs"

definition penalize :: "SearchResult \<Rightarrow> SearchResult" where
  "penalize r =
     r\<lparr>score := score r * 0.8,
       metadata := AList.update k_diversity_penalty (PBool True) (metadata r)\<rparr>"

text \<open>
  The diversity loop: \<open>file_counts\<close> is the dict read with \<open>get(file_key, 0)\<close>, the
  result is \<open>diverse_results\<close> in the order of the appends.
\<close>

fun diversity_loop :: "nat \<Rightarrow> (pystr \<Rightarrow> nat) \<Rightarrow> SearchResult list \<Rightarrow> SearchResult list" where
  "diversity_loop max_per_file file_counts [] = []"
| "diversity_loop max_per_file file_counts (result # rest) =
     (if file_counts (source_file result) < max_per_file
      then result #
           diversity_loop max_per_file
             (file_counts(source_file result := file_counts (source_file result) + 1)) rest
      else penalize result # diversity_loop max_per_file file_counts rest)"

definition post_process_results ::
  "(pystr \<Rightarrow> pystr) \<Rightarrow> SearchResult list \<Rightarrow> pystr \<Rightarrow> SearchResult list" where
  "post_process_results lower results query =
     (if results = [] then results
      else
        (let processed_results = map (enhance lower query) results;
             max_per_file = max 1 (length results div 3);
             diverse_results =
               diversity_loop max_per_file (\<lambda>f. 0) (sort_by_score processed_results)
         in sort_by_score diverse_results))"


section \<open>EmbeddingService.encode_single\<close>

definition zero_vector :: "Env \<Rightarrow> vector" where
  "zero_vector env = replicate (embedding_dimension (settings env)) 0"

text \<open>
  \<open>_load_model\<close>: nothing to do when the model is loaded; otherwise the constructor
  runs, and its exception is raised again as a \<open>RuntimeError\<close>.
\<close>

definition load_model :: "Env \<Rightarrow> System \<Rightarrow> py_exception + System" where
  "load_model env s =
     (if model_loaded s then Inr s
      else (case model_init env of
              None \<Rightarrow> Inr ((emit ModelLoad s)\<lparr>model_loaded := True\<rparr>)
            | Some msg \<Rightarrow>
                Inl (PyExc ''RuntimeError'' (''Could not initialize embedding model: '' @ msg))))"

text \<open>
  \<open>encode_single\<close>. The cache lookup and \<open>_load_model\<close> are outside \<open>try\<close>, so their
  exceptions leave \<open>encode_single\<close>; the call of the model and the cache store are inside
  it, and its handler returns the zero vector.
\<close>

definition encode_single ::
  "Env \<Rightarrow> pystr \<Rightarrow> bool \<Rightarrow> System \<Rightarrow> (py_exception + vector) \<times> System" where
  "encode_single env txt use_cache s =
     (if txt = [] \<or> py_strip txt = [] then (Inr (zero_vector env), s)
      else
        (let normalized_text = py_strip txt;
             looked = (if use_cache
                       then cache_get (text_hash env) (disk_unlink env) normalized_text
                              (embedding_cache s)
                       else (Inr None, embedding_cache s));
             s1 = s\<lparr>embedding_cache := snd looked\<rparr>
         in case fst looked of
              Inl e \<Rightarrow> (Inl e, s1)
            | Inr (Some cached_embedding) \<Rightarrow> (Inr cached_embedding, s1)
            | Inr None \<Rightarrow>
                (case load_model env s1 of
                   Inl e \<Rightarrow> (Inl e, s1)
                 | Inr s2 \<Rightarrow>
                     (let s3 = emit (ProviderEncode normalized_text) s2 in
                      case model_encode env normalized_text of
                        Inr embedding \<Rightarrow>
                          (Inr embedding,
                           if use_cache
                           then s3\<lparr>embedding_cache :=
                                     cache_put (text_hash env) (disk_write env) normalized_text
                                       embedding (embedding_cache s3)\<rparr>
                           else s3)
                      | Inl e \<Rightarrow> (Inr (zero_vector env), s3)))))"


section \<open>SearchService.search\<close>

text \<open>
  The dict \<open>search\<close> returns, without the timing statistics: \<open>success\<close> false with a
  message and no results, or \<open>success\<close> true with the normalized query, the results and
  the flag \<open>cached\<close>. A call ends by returning such a dict (\<open>Inr\<close>) or by raising
  (\<open>Inl\<close>); the body of \<open>search\<close> is one \<open>try\<close> whose handler turns every exception
  into a returned failure.
\<close>

datatype response = Failure string | Success pystr "SearchResult list" bool

definition results_of :: "response \<Rightarrow> SearchResult list" where
  "results_of r = (case r of Failure m \<Rightarrow> [] | Success q rs c \<Rightarrow> rs)"

text \<open>\<open>not filters\<close>: \<open>None\<close> and the empty dict are false.\<close>

definition no_filters :: "filters option \<Rightarrow> bool" where
  "no_filters fltrs \<longleftrightarrow> (case fltrs of None \<Rightarrow> True | Some fs \<Rightarrow> fs = [])"

text \<open>The lookup in the query cache with the check of the age of the entry.\<close>

definition cached_results :: "Env \<Rightarrow> cache_key \<Rightarrow> System \<Rightarrow> SearchResult list option" where
  "cached_results env k s =
     (case map_of (query_cache s) k of
        None \<Rightarrow> None
      | Some (rs, cache_time) \<Rightarrow>
          if time_lookup env - cache_time < cache_ttl then Some rs else None)"

text \<open>
  The store: the entry is written, and a cache of more than 100 entries loses the entry
  with the least time (\<open>min\<close> returns the first such key).
\<close>

definition store_results :: "Env \<Rightarrow> cache_key \<Rightarrow> SearchResult list \<Rightarrow> System \<Rightarrow> System" where
  "store_results env k rs s =
     (let qc = AList.update k (rs, time_store env) (query_cache s)
      in s\<lparr>query_cache :=
             (if length qc > 100
              then AList.delete (fst (arg_min_list (\<lambda>entry. snd (snd entry)) qc)) qc
              else qc)\<rparr>)"

definition search ::
  "Env \<Rightarrow> pystr \<Rightarrow> int option \<Rightarrow> real option \<Rightarrow> filters option \<Rightarrow> System
     \<Rightarrow> (py_exception + response) \<times> System" where
  "search env query limit score_threshold fltrs s0 =
     (let s1 = emit (Stage VALIDATE) s0 in
      if query = [] \<or> py_strip query = [] then (Inr (Failure ''Empty query provided''), s1)
      else
        (let normalized_query = py_strip query;
             cache_key = (normalized_query, limit, score_threshold);
             s2 = (if no_filters fltrs then emit (Stage CACHE_LOOKUP) s1 else s1)
         in case (if no_filters fltrs then cached_results env cache_key s2 else None) of
              Some rs \<Rightarrow> (Inr (Success normalized_query rs True), s2)
            | None \<Rightarrow>
                (case encode_single env normalized_query True (emit (Stage EMBED) s2) of
                   (Inl e, s3) \<Rightarrow> (Inr (Failure (''Search failed: '' @ exc_msg e)), s3)
                 | (Inr query_embedding, s3) \<Rightarrow>
                     if query_embedding = []
                     then (Inr (Failure ''Failed to process query''), s3)
                     else
                       (case search_similar env query_embedding limit score_threshold fltrs
                               (emit (Stage VECTOR_QUERY) s3) of
                          (search_results, s4) \<Rightarrow>
                            (let processed_results =
                                   post_process_results (str_lower env) search_results
                                     normalized_query;
                                 s5 = emit (Stage RANK) s4;
                                 s6 = (if no_filters fltrs \<and> processed_results \<noteq> []
                                       then store_results env cache_key processed_results
                                              (emit (Stage CACHE_STORE) s5)
                                       else s5)
                             in (Inr (Success normalized_query processed_results False),
                                 s6))))))"


section \<open>Notions used in the properties\<close>

subsection \<open>Chunking\<close>

definition no_space :: "pystr \<Rightarrow> bool" where
  "no_space s \<longleftrightarrow> (\<forall>c\<in>set s. \<not> is_space c)"

definition blank :: "pystr \<Rightarrow> bool" where
  "blank s \<longleftrightarrow> (\<forall>c\<in>set s. is_space c)"

text \<open>A single word that cannot be split: not empty and free of whitespace.\<close>

definition single_word :: "pystr \<Rightarrow> bool" where
  "single_word s \<longleftrightarrow> s \<noteq> [] \<and> no_space s"

definition within_bound :: "int \<Rightarrow> pystr \<Rightarrow> bool" where
  "within_bound mx s \<longleftrightarrow> int (length s) \<le> mx \<or> single_word s"

definition loose :: "int \<Rightarrow> pystr \<Rightarrow> bool" where
  "loose mx s \<longleftrightarrow> int (length s) \<le> mx \<or> no_space s"

definition chunk_inv :: "int \<Rightarrow> pystr list \<times> pystr \<Rightarrow> bool" where
  "chunk_inv mx st \<longleftrightarrow> (\<forall>c\<in>set (fst st). loose mx c) \<and> loose mx (snd st)"

text \<open>
  The list \<open>split_into_chunks\<close> holds when it reaches the overlap loop, or returns at
  once for a short text.
\<close>

definition chunks_before_overlap :: "DocumentProcessor \<Rightarrow> pystr \<Rightarrow> pystr list" where
  "chunks_before_overlap dp text =
     (if text = [] \<or> int (length text) < chunk_size dp
      then (if text \<noteq> [] then [text] else [])
      else base_chunks (chunk_size dp) text)"

text \<open>Inputs for the examples.\<close>

definition ex_processor :: DocumentProcessor where
  "ex_processor = \<lparr>chunk_size = 100, chunk_overlap = 50\<rparr>"

definition ex_processor0 :: DocumentProcessor where
  "ex_processor0 = \<lparr>chunk_size = 100, chunk_overlap = 0\<rparr>"

definition ex_text :: pystr where
  "ex_text = of_ascii
     ''Semantic search splits every document into overlapping chunks before embedding them. The overlap repeats the trailing words of the previous chunk in the next chunk.''"

definition ex_raw_text :: pystr where
  "ex_raw_text = of_ascii ''  Hello,   world!!  #''"

text \<open>A Unicode table without alphanumerics beyond ASCII, enough for ASCII inputs.\<close>

definition ascii_table :: "codepoint \<Rightarrow> bool" where
  "ascii_table c = False"

subsection \<open>An example environment\<close>

text \<open>
  The digest is replaced by the identity, which like SHA-256 on the texts of the examples
  maps different texts to different keys; \<open>str.lower\<close> is given on ASCII; the index
  returns as many copies of one hit as the limit asks for.
\<close>

definition ex_hash :: "pystr \<Rightarrow> pystr" where
  "ex_hash t = t"

definition ascii_lower :: "pystr \<Rightarrow> pystr" where
  "ascii_lower s = map (\<lambda>c. if 65 \<le> c \<and> c \<le> 90 then c + 32 else c) s"

definition ex_hit :: hit where
  "ex_hit = \<lparr>hit_score = 0.9,
      hit_payload = [(of_ascii ''chunk_id'', PStr (of_ascii ''guide_0001'')),
                     (of_ascii ''text'', PStr (of_ascii ''Vector search guide'')),
                     (of_ascii ''source_file'', PStr (of_ascii ''docs/guide.txt''))]\<rparr>"

definition ex_index :: "vector \<Rightarrow> condition list option \<Rightarrow> int \<Rightarrow> real \<Rightarrow> py_exception + hit list" where
  "ex_index v qf l t = Inr (replicate (nat l) ex_hit)"

definition ex_model :: "pystr \<Rightarrow> py_exception + vector" where
  "ex_model t = Inr [1, 0]"

text \<open>
  The client library accepts a string, an integer and a boolean as a value to match and
  rejects a float; as the bound of a range it accepts a number and rejects the strings
  of the examples.
\<close>

fun ex_match_value_valid :: "pyscalar \<Rightarrow> bool" where
  "ex_match_value_valid (VFloat x) = False"
| "ex_match_value_valid v = True"

fun ex_bound_valid :: "pyscalar option \<Rightarrow> bool" where
  "ex_bound_valid (Some (VStr x)) = False"
| "ex_bound_valid b = True"

definition ex_range_valid :: "pyscalar option \<Rightarrow> pyscalar option \<Rightarrow> bool" where
  "ex_range_valid g l \<longleftrightarrow> ex_bound_valid g \<and> ex_bound_valid l"

definition ex_env :: Env where
  "ex_env = \<lparr>settings = default_settings, text_hash = ex_hash, str_lower = ascii_lower,
      model_init = None, model_encode = ex_model, disk_write = Written,
      disk_unlink = Unlinked, qdrant_connect = Connected,
      match_value_valid = ex_match_value_valid, range_valid = ex_range_valid,
      client_search = ex_index, time_lookup = 1000, time_store = 1001\<rparr>"

definition ex_query :: pystr where
  "ex_query = of_ascii ''vector search''"

definition ex_system :: System where
  "ex_system = \<lparr>query_cache = [], embedding_cache = EmbeddingCache_init [],
      model_loaded = False, client = False, trace = []\<rparr>"
subsection \<open>Defaults\<close>

text \<open>The limit and the threshold a call of \<open>search_similar\<close> asks the index with.\<close>

definition asked_limit :: "Env \<Rightarrow> int option \<Rightarrow> int" where
  "asked_limit env limit =
     (case limit of
        None \<Rightarrow> default_limit (settings env)
      | Some l \<Rightarrow> if l = 0 then default_limit (settings env) else l)"

definition asked_threshold :: "Env \<Rightarrow> real option \<Rightarrow> real" where
  "asked_threshold env score_threshold =
     (case score_threshold of
        None \<Rightarrow> similarity_threshold (settings env)
      | Some t \<Rightarrow> if t = 0 then similarity_threshold (settings env) else t)"

text \<open>The index is reached: the client is set or connects.\<close>

definition connects :: "Env \<Rightarrow> System \<Rightarrow> bool" where
  "connects env s \<longleftrightarrow> client s \<or> qdrant_connect env = Connected"

text \<open>The state in which \<open>search\<close> calls \<open>encode_single\<close>.\<close>

definition at_embed :: "filters option \<Rightarrow> System \<Rightarrow> System" where
  "at_embed fltrs s =
     emit (Stage EMBED)
       (if no_filters fltrs then emit (Stage CACHE_LOOKUP) (emit (Stage VALIDATE) s)
        else emit (Stage VALIDATE) s)"

subsection \<open>The embedding cache\<close>


definition absent :: "(pystr \<Rightarrow> pystr) \<Rightarrow> pystr \<Rightarrow> EmbeddingCache \<Rightarrow> bool" where
  "absent th t c \<longleftrightarrow>
     map_of (memory_cache c) (th t) = None \<and> map_of (cache_dir c) (th t) = None"



definition ex_hello :: pystr where
  "ex_hello = of_ascii ''hello world''"

definition ex_corrupt_cache :: EmbeddingCache where
  "ex_corrupt_cache = \<lparr>memory_cache = [], cache_dir = [(ex_hello, Garbage)]\<rparr>"

subsection \<open>The search call\<close>

definition is_cache_stage :: "event \<Rightarrow> bool" where
  "is_cache_stage e \<longleftrightarrow> e = Stage CACHE_LOOKUP \<or> e = Stage CACHE_STORE"

definition is_provider_call :: "event \<Rightarrow> bool" where
  "is_provider_call e = (case e of ProviderEncode t \<Rightarrow> True | other \<Rightarrow> False)"

definition is_index_call :: "event \<Rightarrow> bool" where
  "is_index_call e = (case e of IndexSearch v qf l t \<Rightarrow> True | other \<Rightarrow> False)"

text \<open>The state after \<open>_load_model\<close> has succeeded.\<close>

definition loaded :: "System \<Rightarrow> System" where
  "loaded s = (if model_loaded s then s else (emit ModelLoad s)\<lparr>model_loaded := True\<rparr>)"

definition ex_filters :: "filters option" where
  "ex_filters = Some [(of_ascii ''file_name'', FScalar (VStr (of_ascii ''guide.txt'')))]"

text \<open>A system whose query cache holds a fresh entry for the example query.\<close>

definition ex_cached_system :: System where
  "ex_cached_system =
     ex_system\<lparr>query_cache := [((ex_query, None, None), ([hit_result ex_hit], 900))]\<rparr>"







section \<open>Lemmas\<close>

subsection \<open>Strings\<close>

lemma split_acc_no_space:
  "no_space w \<Longrightarrow> \<forall>x\<in>set (split_acc w s). x \<noteq> [] \<and> no_space x"
proof (induction s arbitrary: w)
  case Nil
  then show ?case by simp
next
  case (Cons c cs)
  have e: "no_space []" by (simp add: no_space_def)
  show ?case
  proof (cases "is_space c")
    case True
    then show ?thesis using Cons.IH [OF e] Cons.prems by auto
  next
    case False
    with Cons.prems have "no_space (w @ [c])" by (simp add: no_space_def)
    from Cons.IH [OF this] False show ?thesis by simp
  qed
qed

lemma py_split_no_space: "x \<in> set (py_split s) \<Longrightarrow> x \<noteq> [] \<and> no_space x"
  unfolding py_split_def using split_acc_no_space [of "[]" s] by (simp add: no_space_def)

lemma length_py_strip: "length (py_strip s) \<le> length s"
  unfolding py_strip_def
  by (metis length_rev length_dropWhile_le le_trans)

lemma dropWhile_no_space: "no_space s \<Longrightarrow> dropWhile is_space s = s"
  by (cases s) (simp_all add: no_space_def)

lemma py_strip_no_space: "no_space s \<Longrightarrow> py_strip s = s"
proof -
  assume a: "no_space s"
  then have "no_space (rev s)" by (simp add: no_space_def)
  then show ?thesis using a by (simp add: py_strip_def dropWhile_no_space)
qed

lemma sub_runs_length:
  "length rep \<le> n \<Longrightarrow> length (sub_runs P n rep s) \<le> length s"
proof (induction P n rep s rule: sub_runs.induct)
  case (1 P n rep)
  then show ?case by simp
next
  case (2 P n rep c cs)
  show ?case
  proof (cases "P c")
    case True
    have len: "length (takeWhile P cs) + length (dropWhile P cs) = length cs"
      by (metis length_append takeWhile_dropWhile_id)
    have ih: "length (sub_runs P n rep (dropWhile P cs)) \<le> length (dropWhile P cs)"
      using 2 True by simp
    show ?thesis using True ih len "2.prems" by auto
  next
    case False
    then show ?thesis using 2 by simp
  qed
qed

lemma sub_runs_all:
  "s \<noteq> [] \<Longrightarrow> \<forall>c\<in>set s. P c \<Longrightarrow> n \<le> length s \<Longrightarrow> sub_runs P n rep s = rep"
proof -
  assume ne: "s \<noteq> []" and all: "\<forall>c\<in>set s. P c" and n: "n \<le> length s"
  then obtain c cs where s: "s = c # cs" by (cases s) auto
  from all s have tw: "takeWhile P cs = cs" and dw: "dropWhile P cs = []" by auto
  from all s have pc: "P c" by simp
  from n s show ?thesis by (simp add: pc tw dw)
qed

subsection \<open>Cleaning\<close>

lemma clean_text_length: "length (clean_text ua t) \<le> length t"
proof -
  have a: "length (sub_runs is_space 1 [SP] t) \<le> length t"
    by (rule sub_runs_length) simp
  have b: "\<And>P s. length (sub_runs P 1 [SP] s) \<le> length s"
    by (rule sub_runs_length) simp
  have c: "\<And>P s x. length (sub_runs P 2 [x] s) \<le> length s"
    by (rule sub_runs_length) simp
  show ?thesis
    unfolding clean_text_def Let_def
    by (meson a b c length_py_strip le_trans)
qed

lemma clean_text_blank: "blank t \<Longrightarrow> clean_text ua t = []"
proof (cases "t = []")
  case True
  then show ?thesis by (simp add: clean_text_def py_strip_def)
next
  case False
  assume "blank t"
  then have "sub_runs is_space 1 [SP] t = [SP]"
    using False by (intro sub_runs_all) (auto simp: blank_def Suc_le_eq)
  then show ?thesis
    by (simp add: clean_text_def py_strip_def SP_def is_space_def)
qed

subsection \<open>The loops of the chunker\<close>

lemma loose_strip: "loose mx s \<Longrightarrow> loose mx (py_strip s)"
  using length_py_strip [of s] py_strip_no_space [of s] by (auto simp: loose_def)

lemma word_step_inv:
  "chunk_inv mx st \<Longrightarrow> no_space w \<Longrightarrow> chunk_inv mx (word_step mx st w)"
  by (cases st) (auto simp: chunk_inv_def word_step_def loose_strip, auto simp: loose_def)

lemma word_loop_inv:
  "chunk_inv mx st \<Longrightarrow> \<forall>w\<in>set ws. no_space w \<Longrightarrow> chunk_inv mx (foldl (word_step mx) st ws)"
  by (induction ws arbitrary: st) (auto simp: word_step_inv)

lemma sentence_step_inv:
  assumes "chunk_inv mx st"
  shows "chunk_inv mx (sentence_step mx st s)"
proof (cases st)
  case (Pair chunks cur)
  with assms have ch: "\<forall>c\<in>set chunks. loose mx c" and cu: "loose mx cur"
    by (auto simp: chunk_inv_def)
  let ?chunks1 = "if cur \<noteq> [] then chunks @ [py_strip cur] else chunks"
  have c1: "chunk_inv mx (?chunks1, [])"
    using ch cu by (auto simp: chunk_inv_def loose_strip) (simp add: loose_def no_space_def)+
  have words: "\<forall>w\<in>set (py_split s). no_space w"
    using py_split_no_space by blast
  show ?thesis
  proof (cases "int (length (cur @ [SP] @ s)) \<le> mx")
    case True
    then show ?thesis using Pair ch
      by (auto simp: sentence_step_def chunk_inv_def loose_def)
  next
    case False
    show ?thesis
    proof (cases "int (length s) \<le> mx")
      case True
      then show ?thesis using Pair False c1
        by (auto simp: sentence_step_def chunk_inv_def loose_def Let_def)
    next
      case long: False
      have "sentence_step mx st s = foldl (word_step mx) (?chunks1, []) (py_split s)"
        using Pair False long by (simp add: sentence_step_def Let_def)
      then show ?thesis using word_loop_inv [OF c1 words] by simp
    qed
  qed
qed

lemma sentence_loop_inv:
  "chunk_inv mx st \<Longrightarrow> chunk_inv mx (foldl (sentence_step mx) st ss)"
  by (induction ss arbitrary: st) (auto simp: sentence_step_inv)

lemma base_chunks_loose: "c \<in> set (base_chunks mx text) \<Longrightarrow> loose mx c"
proof -
  assume a: "c \<in> set (base_chunks mx text)"
  have "chunk_inv mx ([], [])" by (simp add: chunk_inv_def loose_def no_space_def)
  then have inv: "chunk_inv mx (foldl (sentence_step mx) ([], []) (split_sentences text))"
    by (rule sentence_loop_inv)
  obtain chunks cur
    where e: "foldl (sentence_step mx) ([], []) (split_sentences text) = (chunks, cur)"
    by (cases "foldl (sentence_step mx) ([], []) (split_sentences text)")
  from inv e have "\<forall>c\<in>set chunks. loose mx c" "loose mx (py_strip cur)"
    by (auto simp: chunk_inv_def loose_strip)
  with a e show ?thesis by (auto simp: base_chunks_def split: if_splits)
qed

lemma loose_within: "0 \<le> mx \<Longrightarrow> loose mx c \<Longrightarrow> within_bound mx c"
  by (auto simp: loose_def within_bound_def single_word_def)

lemma chunks_before_overlap_bound:
  assumes "0 \<le> chunk_size dp" and "c \<in> set (chunks_before_overlap dp text)"
  shows "within_bound (chunk_size dp) c"
proof (cases "text = [] \<or> int (length text) < chunk_size dp")
  case True
  with assms(2) show ?thesis
    by (auto simp: chunks_before_overlap_def within_bound_def split: if_splits)
next
  case False
  with assms(2) have "c \<in> set (base_chunks (chunk_size dp) text)"
    by (simp add: chunks_before_overlap_def)
  then show ?thesis using assms(1) base_chunks_loose loose_within by blast
qed

lemma overlap_loop_suffix:
  "list_all2 (\<lambda>seg b. \<exists>p. seg = p @ b) (overlap_loop ov prev cs) cs"
  by (induction cs arbitrary: prev) auto

lemma add_overlap_suffix: "list_all2 (\<lambda>seg b. \<exists>p. seg = p @ b) (add_overlap ov cs) cs"
  by (cases cs) (simp_all add: add_overlap_def overlap_loop_suffix)

lemma overlap_loop_none: "\<not> 0 < ov \<Longrightarrow> overlap_loop ov prev cs = cs"
  by (induction cs arbitrary: prev) auto

lemma add_overlap_none: "\<not> 0 < ov \<Longrightarrow> add_overlap ov cs = cs"
  by (cases cs) (simp_all add: add_overlap_def overlap_loop_none)

lemma add_overlap_hd: "cs \<noteq> [] \<Longrightarrow> hd (add_overlap ov cs) = hd cs"
  by (cases cs) (simp_all add: add_overlap_def)

lemma split_into_chunks_overlap:
  "split_into_chunks dp text = add_overlap (chunk_overlap dp) (chunks_before_overlap dp text)"
  by (simp add: split_into_chunks_def chunks_before_overlap_def add_overlap_def)

subsection \<open>The examples of the chunker, evaluated\<close>

lemmas chunk_eval = is_space_def SP_def is_terminal_def py_strip_def py_split_def
  split_sentences_def word_step_def sentence_step_def base_chunks_def overlap_prefix_def
  add_overlap_def split_into_chunks_def chunks_before_overlap_def py_slice_from_def
  of_ascii_def no_space_def single_word_def within_bound_def blank_def
  clean_text_def chunk_document_def is_word_def kept_punct_def ascii_table_def
  ex_processor_def ex_processor0_def ex_text_def ex_raw_text_def

lemma ex_chunks_overlap:
  "split_into_chunks ex_processor ex_text =
     [of_ascii ''Semantic search splits every document into overlapping chunks before embedding them.'',
      of_ascii ''overlapping chunks before embedding them. The overlap repeats the trailing words of the previous chunk in the next chunk.'']"
  by (simp add: chunk_eval)

lemma ex_chunks_no_overlap:
  "split_into_chunks ex_processor0 ex_text =
     [of_ascii ''Semantic search splits every document into overlapping chunks before embedding them.'',
      of_ascii ''The overlap repeats the trailing words of the previous chunk in the next chunk.'']"
  by (simp add: chunk_eval)


section \<open>The size of the segments (C1)\<close>

text \<open>
  C1, as amended. For valid parameters, every segment has at most \<open>max_size\<close>
  characters before the overlap prefix is added, unless it is a single word longer than
  \<open>max_size\<close>: each produced segment is some prefix followed by such a bounded segment.
  The produced segments themselves are bounded when the overlap is \<open>0\<close>, and the first
  segment always is.
\<close>

theorem chunk_bound_before_overlap:
  assumes "valid_chunking dp"
  shows "list_all2 (\<lambda>seg b. (\<exists>p. seg = p @ b) \<and> within_bound (chunk_size dp) b)
           (split_into_chunks dp text) (chunks_before_overlap dp text)
         \<and> (chunk_overlap dp = 0 \<longrightarrow>
              (\<forall>c\<in>set (split_into_chunks dp text). within_bound (chunk_size dp) c))
         \<and> (split_into_chunks dp text \<noteq> [] \<longrightarrow>
              within_bound (chunk_size dp) (hd (split_into_chunks dp text)))"
proof -
  let ?out = "split_into_chunks dp text" and ?base = "chunks_before_overlap dp text"
  from assms have nn: "0 \<le> chunk_size dp" by (simp add: valid_chunking_def)
  have bound: "\<forall>c\<in>set ?base. within_bound (chunk_size dp) c"
    using chunks_before_overlap_bound [OF nn] by blast
  have suf: "list_all2 (\<lambda>seg b. \<exists>p. seg = p @ b) ?out ?base"
    by (simp add: split_into_chunks_overlap add_overlap_suffix)
  have one: "list_all2 (\<lambda>seg b. (\<exists>p. seg = p @ b) \<and> within_bound (chunk_size dp) b) ?out ?base"
    using suf bound by (auto simp: list_all2_conv_all_nth)
  have two: "chunk_overlap dp = 0 \<longrightarrow> (\<forall>c\<in>set ?out. within_bound (chunk_size dp) c)"
    using bound by (simp add: split_into_chunks_overlap add_overlap_none)
  have three: "?out \<noteq> [] \<longrightarrow> within_bound (chunk_size dp) (hd ?out)"
  proof
    assume ne: "?out \<noteq> []"
    then have b: "?base \<noteq> []"
      by (auto simp: split_into_chunks_overlap add_overlap_def)
    then have "hd ?out = hd ?base" by (simp add: split_into_chunks_overlap add_overlap_hd)
    then show "within_bound (chunk_size dp) (hd ?out)" using bound b by simp
  qed
  from one two three show ?thesis by blast
qed

text \<open>Both hypotheses hold for the example processors and the example text.\<close>

theorem chunk_bound_before_overlap_witness:
  "valid_chunking ex_processor \<and> valid_chunking ex_processor0
   \<and> chunk_overlap ex_processor0 = 0
   \<and> length (split_into_chunks ex_processor ex_text) = 2
   \<and> length (split_into_chunks ex_processor0 ex_text) = 2
   \<and> list_all2 (\<lambda>seg b. (\<exists>p. seg = p @ b) \<and> within_bound 100 b)
        (split_into_chunks ex_processor ex_text) (chunks_before_overlap ex_processor ex_text)
   \<and> list_all (within_bound 100) (split_into_chunks ex_processor0 ex_text)
   \<and> within_bound 100 (hd (split_into_chunks ex_processor ex_text))"
proof -
  have v: "valid_chunking ex_processor" "valid_chunking ex_processor0"
    by (simp_all add: valid_chunking_def ex_processor_def ex_processor0_def)
  have l: "length (split_into_chunks ex_processor ex_text) = 2"
    "length (split_into_chunks ex_processor0 ex_text) = 2"
    by (simp_all add: ex_chunks_overlap ex_chunks_no_overlap)
  have z: "chunk_overlap ex_processor0 = 0" "chunk_size ex_processor = 100"
    "chunk_size ex_processor0 = 100"
    by (simp_all add: ex_processor0_def ex_processor_def)
  from l have ne: "split_into_chunks ex_processor ex_text \<noteq> []" by auto
  have a: "list_all2 (\<lambda>seg b. (\<exists>p. seg = p @ b) \<and> within_bound 100 b)
        (split_into_chunks ex_processor ex_text) (chunks_before_overlap ex_processor ex_text)"
    and c: "within_bound 100 (hd (split_into_chunks ex_processor ex_text))"
    using chunk_bound_before_overlap [OF v(1), of ex_text] ne unfolding z by blast+
  have b: "list_all (within_bound 100) (split_into_chunks ex_processor0 ex_text)"
    using chunk_bound_before_overlap [OF v(2), of ex_text] unfolding z list_all_iff by blast
  from v z l a b c show ?thesis by blast
qed

text \<open>
  C1 as stated fails: with \<open>max_size = 100\<close> and \<open>overlap = 50\<close> the second segment of
  the example text is the last five words of the first segment, a space and a sentence of
  79 characters, 121 characters in all, and it is not a single word.
\<close>

theorem chunk_bound_with_overlap_counterexample:
  "valid_chunking ex_processor
   \<and> length (split_into_chunks ex_processor ex_text) = 2
   \<and> length (split_into_chunks ex_processor ex_text ! 1) = 121
   \<and> \<not> single_word (split_into_chunks ex_processor ex_text ! 1)
   \<and> \<not> within_bound (chunk_size ex_processor) (split_into_chunks ex_processor ex_text ! 1)"
proof -
  have v: "valid_chunking ex_processor"
    by (simp add: valid_chunking_def ex_processor_def)
  have a: "length (split_into_chunks ex_processor ex_text) = 2"
    by (simp add: ex_chunks_overlap)
  have b: "length (split_into_chunks ex_processor ex_text ! 1) = 121"
    by (simp add: ex_chunks_overlap of_ascii_def)
  have c: "\<not> single_word (split_into_chunks ex_processor ex_text ! 1)"
    by (simp add: ex_chunks_overlap of_ascii_def single_word_def no_space_def is_space_def)
  have d: "\<not> within_bound (chunk_size ex_processor) (split_into_chunks ex_processor ex_text ! 1)"
    using b c by (simp add: within_bound_def ex_processor_def)
  from v a b c d show ?thesis by blast
qed


section \<open>Edge cases of the chunking stage (C9)\<close>

text \<open>
  C9, as amended. Empty or whitespace-only text yields no segment. A text whose cleaned
  form is not empty and is shorter than \<open>max_size\<close> yields exactly one segment, the
  cleaned text; cleaning never lengthens a text, so this covers every text shorter than
  \<open>max_size\<close> that does not clean to the empty text.
\<close>

theorem chunk_document_edge_cases:
  "(blank text \<longrightarrow> chunk_document ua dp text = [])
   \<and> (clean_text ua text \<noteq> [] \<and> int (length (clean_text ua text)) < chunk_size dp
        \<longrightarrow> chunk_document ua dp text = [clean_text ua text])
   \<and> (int (length text) < chunk_size dp
        \<longrightarrow> int (length (clean_text ua text)) < chunk_size dp)"
proof -
  have one: "blank text \<longrightarrow> chunk_document ua dp text = []"
    by (simp add: chunk_document_def clean_text_blank split_into_chunks_def)
  have two: "clean_text ua text \<noteq> [] \<and> int (length (clean_text ua text)) < chunk_size dp
        \<longrightarrow> chunk_document ua dp text = [clean_text ua text]"
  proof
    assume a: "clean_text ua text \<noteq> [] \<and> int (length (clean_text ua text)) < chunk_size dp"
    have "text \<noteq> []"
    proof
      assume "text = []"
      then have "blank text" by (simp add: blank_def)
      then show False using a clean_text_blank by blast
    qed
    then show "chunk_document ua dp text = [clean_text ua text]"
      using a by (simp add: chunk_document_def split_into_chunks_def)
  qed
  have three: "int (length text) < chunk_size dp
        \<longrightarrow> int (length (clean_text ua text)) < chunk_size dp"
    using clean_text_length [of ua "text"] by linarith
  from one two three show ?thesis by blast
qed

theorem chunk_document_edge_cases_witness:
  "blank (of_ascii ''   '')
   \<and> chunk_document ascii_table ex_processor (of_ascii ''   '') = []
   \<and> clean_text ascii_table ex_raw_text = of_ascii ''Hello, world!''
   \<and> clean_text ascii_table ex_raw_text \<noteq> []
   \<and> int (length ex_raw_text) < chunk_size ex_processor
   \<and> chunk_document ascii_table ex_processor ex_raw_text = [of_ascii ''Hello, world!'']"
proof -
  have b: "blank (of_ascii ''   '')" by (simp add: blank_def of_ascii_def is_space_def)
  have c: "clean_text ascii_table ex_raw_text = of_ascii ''Hello, world!''"
    by (simp add: chunk_eval)
  then have n: "clean_text ascii_table ex_raw_text \<noteq> []" by (simp add: of_ascii_def)
  have l: "int (length ex_raw_text) < chunk_size ex_processor"
    by (simp add: ex_raw_text_def ex_processor_def of_ascii_def)
  have l': "int (length (clean_text ascii_table ex_raw_text)) < chunk_size ex_processor"
    using chunk_document_edge_cases [of ex_raw_text ascii_table ex_processor] l by blast
  have d: "chunk_document ascii_table ex_processor ex_raw_text = [clean_text ascii_table ex_raw_text]"
    using chunk_document_edge_cases [of ex_raw_text ascii_table ex_processor] n l' by blast
  have e: "chunk_document ascii_table ex_processor (of_ascii ''   '') = []"
    using chunk_document_edge_cases [of "of_ascii ''   ''" ascii_table ex_processor] b by blast
  from b c n l d e show ?thesis by simp
qed

text \<open>
  C9 as stated fails for a text that is neither empty nor whitespace-only and is shorter
  than \<open>max_size\<close>, but consists of symbols that cleaning removes: \<open>@\<close> yields no
  segment.
\<close>

theorem chunk_document_symbols_counterexample:
  "[64] \<noteq> [] \<and> \<not> blank [64] \<and> int (length [64::nat]) < chunk_size ex_processor
   \<and> chunk_document ascii_table ex_processor [64] = []"
  by (simp add: chunk_eval)


section \<open>Lemmas on the search call\<close>

lemma py_or_zero [simp]: "py_or (Some 0) d = d" "py_or None d = d"
  by (simp_all add: py_or_def)

lemma py_or_nonzero: "v \<noteq> 0 \<Longrightarrow> py_or (Some v) d = v"
  by (simp add: py_or_def)

lemma get_client_connects:
  "connects env s \<Longrightarrow> get_client env s = (Inr (), s\<lparr>client := True\<rparr>)"
  by (auto simp: connects_def get_client_def)

lemma search_similar_reached:
  assumes "connects env s" and "qdrant_filter env f = Inr qf"
  shows "search_similar env v lmt thr f s =
           ((case client_search env v qf (asked_limit env lmt) (asked_threshold env thr) of
               Inr hits \<Rightarrow> map hit_result hits | Inl e \<Rightarrow> []),
            emit (IndexSearch v qf (asked_limit env lmt) (asked_threshold env thr))
              (s\<lparr>client := True\<rparr>))"
  using assms
  by (auto simp: search_similar_def get_client_connects Let_def asked_limit_def
      asked_threshold_def py_or_def split: option.splits sum.splits)

lemma cached_results_emit [simp]: "cached_results env k (emit e s) = cached_results env k s"
  by (simp add: cached_results_def emit_def)

lemma search_blank:
  "query = [] \<or> py_strip query = [] \<Longrightarrow>
     search env query lmt thr f s = (Inr (Failure ''Empty query provided''), emit (Stage VALIDATE) s)"
  by (auto simp: search_def Let_def)

lemma search_to_index:
  assumes "py_strip query \<noteq> []"
    and "no_filters f \<longrightarrow> cached_results env (py_strip query, lmt, thr) s = None"
    and "encode_single env (py_strip query) True (at_embed f s) = (Inr emb, s3)"
    and "emb \<noteq> []"
  shows "fst (search env query lmt thr f s) =
           Inr (Success (py_strip query)
                  (post_process_results (str_lower env)
                     (fst (search_similar env emb lmt thr f (emit (Stage VECTOR_QUERY) s3)))
                     (py_strip query))
                  False)"
proof -
  from assms(1) have q: "query \<noteq> []" by (auto simp: py_strip_def)
  show ?thesis
    using assms q
    by (auto simp: search_def Let_def at_embed_def split: prod.splits option.splits)
qed


lemma length_diversity_loop: "length (diversity_loop m fc rs) = length rs"
  by (induction rs arbitrary: fc) simp_all

lemma length_post_process:
  "length (post_process_results lower rs q) = length rs"
  by (simp add: post_process_results_def sort_by_score_def length_diversity_loop Let_def)

lemma ex_query_strip: "py_strip ex_query = ex_query"
  by (simp add: ex_query_def py_strip_def of_ascii_def is_space_def)

lemma ex_env_fields:
  "settings ex_env = default_settings" "text_hash ex_env = ex_hash"
  "str_lower ex_env = ascii_lower" "model_init ex_env = None" "model_encode ex_env = ex_model"
  "disk_write ex_env = Written" "disk_unlink ex_env = Unlinked"
  "qdrant_connect ex_env = Connected" "client_search ex_env = ex_index"
  "time_lookup ex_env = 1000" "time_store ex_env = 1001"
  by (simp_all add: ex_env_def)

lemma ex_query_nonblank: "py_strip ex_query \<noteq> []"
  unfolding ex_query_strip by (simp add: ex_query_def of_ascii_def)

lemma ex_encode:
  assumes "map_of (memory_cache (embedding_cache s)) ex_query = None"
    and "map_of (cache_dir (embedding_cache s)) ex_query = None"
  shows "encode_single ex_env ex_query True s =
     (Inr [1, 0],
      (emit (ProviderEncode ex_query)
         (if model_loaded s then s else (emit ModelLoad s)\<lparr>model_loaded := True\<rparr>))
        \<lparr>embedding_cache := cache_put ex_hash Written ex_query [1, 0] (embedding_cache s)\<rparr>)"
proof -
  have ne: "ex_query \<noteq> []" by (simp add: ex_query_def of_ascii_def)
  show ?thesis
    using assms
    by (auto simp: encode_single_def ex_query_strip ne ex_env_def ex_hash_def cache_get_def
        load_model_def ex_model_def emit_def Let_def)
qed

lemma ex_encode_fresh:
  "fst (encode_single ex_env ex_query True (at_embed f ex_system)) = Inr [1, 0]"
  by (subst ex_encode)
     (simp_all add: at_embed_def emit_def ex_system_def EmbeddingCache_init_def)

lemma ex_search_similar:
  "fst (search_similar ex_env v lmt thr None s) =
     replicate (nat (asked_limit ex_env lmt)) (hit_result ex_hit)"
proof -
  have c: "connects ex_env s" by (simp add: connects_def ex_env_def)
  have q: "qdrant_filter ex_env None = Inr None" by (simp add: qdrant_filter_def)
  have cs: "client_search ex_env = ex_index" by (simp add: ex_env_def)
  show ?thesis
    by (simp add: search_similar_reached [OF c q] cs ex_index_def)
qed

section \<open>Defaults and the maximum of the limit (C10, C8)\<close>

text \<open>
  C10. In \<open>search_similar\<close> a limit of \<open>0\<close> and a score threshold of \<open>0.0\<close> are
  each treated as unspecified: the call is the call with \<open>None\<close> in their place. With
  the default settings, a call that reaches the index (the client connects and the
  filter can be built) asks it for 10 results above the threshold 0.5 and returns its
  hits.
\<close>

theorem zero_limit_and_threshold_default:
  "search_similar env v (Some 0) thr f s = search_similar env v None thr f s
   \<and> search_similar env v lmt (Some 0) f s = search_similar env v lmt None f s
   \<and> search_similar env v (Some 0) (Some 0) f s = search_similar env v None None f s
   \<and> (settings env = default_settings \<and> connects env s \<and> qdrant_filter env f = Inr qf \<longrightarrow>
        search_similar env v (Some 0) (Some 0) f s =
          ((case client_search env v qf 10 0.5 of
              Inr hits \<Rightarrow> map hit_result hits | Inl e \<Rightarrow> []),
           emit (IndexSearch v qf 10 0.5) (s\<lparr>client := True\<rparr>)))"
proof -
  have a: "search_similar env v (Some 0) thr f s = search_similar env v None thr f s"
    by (simp add: search_similar_def)
  have b: "search_similar env v lmt (Some 0) f s = search_similar env v lmt None f s"
    by (simp add: search_similar_def)
  have c: "search_similar env v (Some 0) (Some 0) f s = search_similar env v None None f s"
    by (simp add: search_similar_def)
  have d: "settings env = default_settings \<and> connects env s \<and> qdrant_filter env f = Inr qf \<longrightarrow>
        search_similar env v (Some 0) (Some 0) f s =
          ((case client_search env v qf 10 0.5 of
              Inr hits \<Rightarrow> map hit_result hits | Inl e \<Rightarrow> []),
           emit (IndexSearch v qf 10 0.5) (s\<lparr>client := True\<rparr>))"
  proof
    assume h: "settings env = default_settings \<and> connects env s \<and> qdrant_filter env f = Inr qf"
    then have al: "asked_limit env (Some 0) = 10"
      and at: "asked_threshold env (Some 0) = 1 / 2"
      by (simp_all add: asked_limit_def asked_threshold_def default_settings_def)
    from h have "search_similar env v (Some 0) (Some 0) f s =
          ((case client_search env v qf (asked_limit env (Some 0))
                  (asked_threshold env (Some 0)) of
              Inr hits \<Rightarrow> map hit_result hits | Inl e \<Rightarrow> []),
           emit (IndexSearch v qf (asked_limit env (Some 0)) (asked_threshold env (Some 0)))
             (s\<lparr>client := True\<rparr>))"
      using search_similar_reached [of env s f qf v "Some 0" "Some 0"] by blast
    then show "search_similar env v (Some 0) (Some 0) f s =
          ((case client_search env v qf 10 0.5 of
              Inr hits \<Rightarrow> map hit_result hits | Inl e \<Rightarrow> []),
           emit (IndexSearch v qf 10 0.5) (s\<lparr>client := True\<rparr>))"
      by (simp add: al at)
  qed
  from a b c d show ?thesis by blast
qed

theorem zero_limit_and_threshold_default_witness:
  "settings ex_env = default_settings \<and> connects ex_env ex_system
   \<and> qdrant_filter ex_env None = Inr None
   \<and> search_similar ex_env [1, 0] (Some 0) (Some 0) None ex_system =
       (replicate 10 (hit_result ex_hit),
        emit (IndexSearch [1, 0] None 10 0.5) (ex_system\<lparr>client := True\<rparr>))
   \<and> search_similar ex_env [1, 0] (Some 0) (Some 0) None ex_system =
       search_similar ex_env [1, 0] None None None ex_system"
proof -
  have s: "settings ex_env = default_settings" by (simp add: ex_env_def)
  have c: "connects ex_env ex_system" by (simp add: connects_def ex_env_def)
  have q: "qdrant_filter ex_env None = Inr None" by (simp add: qdrant_filter_def)
  note t = zero_limit_and_threshold_default
    [where env = ex_env and v = "[1, 0]" and f = None and s = ex_system and qf = None]
  from t have a: "search_similar ex_env [1, 0] (Some 0) (Some 0) None ex_system =
       search_similar ex_env [1, 0] None None None ex_system"
    by blast
  from t s c q have "search_similar ex_env [1, 0] (Some 0) (Some 0) None ex_system =
          ((case client_search ex_env [1, 0] None 10 0.5 of
              Inr hits \<Rightarrow> map hit_result hits | Inl e \<Rightarrow> []),
           emit (IndexSearch [1, 0] None 10 0.5) (ex_system\<lparr>client := True\<rparr>))"
    by blast
  then have b: "search_similar ex_env [1, 0] (Some 0) (Some 0) None ex_system =
       (replicate 10 (hit_result ex_hit),
        emit (IndexSearch [1, 0] None 10 0.5) (ex_system\<lparr>client := True\<rparr>))"
    by (simp add: ex_env_def ex_index_def)
  from s c q a b show ?thesis by blast
qed

text \<open>
  C8, as amended. No limit is clamped anywhere. \<open>search\<close> hands the limit and the
  threshold of its caller to \<open>search_similar\<close> as they are, and \<open>search_similar\<close> asks
  the index with them, each replaced by the default of the settings when it is
  unspecified (or zero). \<open>validate_search_limits\<close>, a dependency that no endpoint uses,
  accepts a limit only between 1 and 100 and rejects a limit above 100 with the HTTP
  error 400, so a limit it lets through never exceeds 100; it fills in the defaults
  for unspecified values.
\<close>

theorem limit_rejected_not_clamped:
  "(py_strip query \<noteq> []
      \<and> (no_filters f \<longrightarrow> cached_results env (py_strip query, lmt, thr) s = None)
      \<and> encode_single env (py_strip query) True (at_embed f s) = (Inr emb, s3) \<and> emb \<noteq> []
      \<longrightarrow> fst (search env query lmt thr f s) =
            Inr (Success (py_strip query)
                   (post_process_results (str_lower env)
                      (fst (search_similar env emb lmt thr f (emit (Stage VECTOR_QUERY) s3)))
                      (py_strip query))
                   False))
   \<and> (connects env s \<and> qdrant_filter env f = Inr qf \<longrightarrow>
        search_similar env v lmt thr f s =
          ((case client_search env v qf (asked_limit env lmt) (asked_threshold env thr) of
              Inr hits \<Rightarrow> map hit_result hits | Inl e \<Rightarrow> []),
           emit (IndexSearch v qf (asked_limit env lmt) (asked_threshold env thr))
             (s\<lparr>client := True\<rparr>)))
   \<and> (\<forall>l. l \<noteq> 0 \<longrightarrow> asked_limit env (Some l) = l)
   \<and> asked_limit env None = default_limit (settings env)
   \<and> (\<forall>t. t \<noteq> 0 \<longrightarrow> asked_threshold env (Some t) = t)
   \<and> asked_threshold env None = similarity_threshold (settings env)
   \<and> (\<forall>l. 100 < l \<longrightarrow>
        validate_search_limits st (Some l) thr =
          Inl (HTTPException 400 ''Limit cannot exceed 100 results''))
   \<and> (\<forall>p. valid_settings st \<and> validate_search_limits st lmt thr = Inr p \<longrightarrow>
        1 \<le> v_limit p \<and> v_limit p \<le> 100
        \<and> 0 \<le> v_score_threshold p \<and> v_score_threshold p \<le> 1)
   \<and> validate_search_limits st None None =
        Inr \<lparr>v_limit = default_limit st, v_score_threshold = similarity_threshold st\<rparr>"
proof -
  have one: "py_strip query \<noteq> []
      \<and> (no_filters f \<longrightarrow> cached_results env (py_strip query, lmt, thr) s = None)
      \<and> encode_single env (py_strip query) True (at_embed f s) = (Inr emb, s3) \<and> emb \<noteq> []
      \<longrightarrow> fst (search env query lmt thr f s) =
            Inr (Success (py_strip query)
                   (post_process_results (str_lower env)
                      (fst (search_similar env emb lmt thr f (emit (Stage VECTOR_QUERY) s3)))
                      (py_strip query))
                   False)"
    using search_to_index by blast
  have two: "connects env s \<and> qdrant_filter env f = Inr qf \<longrightarrow>
        search_similar env v lmt thr f s =
          ((case client_search env v qf (asked_limit env lmt) (asked_threshold env thr) of
              Inr hits \<Rightarrow> map hit_result hits | Inl e \<Rightarrow> []),
           emit (IndexSearch v qf (asked_limit env lmt) (asked_threshold env thr))
             (s\<lparr>client := True\<rparr>))"
    using search_similar_reached by blast
  have three: "(\<forall>l. l \<noteq> 0 \<longrightarrow> asked_limit env (Some l) = l)
      \<and> asked_limit env None = default_limit (settings env)
      \<and> (\<forall>t. t \<noteq> 0 \<longrightarrow> asked_threshold env (Some t) = t)
      \<and> asked_threshold env None = similarity_threshold (settings env)"
    by (simp add: asked_limit_def asked_threshold_def)
  have four: "\<forall>l. 100 < l \<longrightarrow>
        validate_search_limits st (Some l) thr =
          Inl (HTTPException 400 ''Limit cannot exceed 100 results'')"
    by (auto simp: validate_search_limits_def)
  have five: "\<forall>p. valid_settings st \<and> validate_search_limits st lmt thr = Inr p \<longrightarrow>
        1 \<le> v_limit p \<and> v_limit p \<le> 100
        \<and> 0 \<le> v_score_threshold p \<and> v_score_threshold p \<le> 1"
    by (auto simp: validate_search_limits_def valid_settings_def split: option.splits if_splits)
  have six: "validate_search_limits st None None =
        Inr \<lparr>v_limit = default_limit st, v_score_threshold = similarity_threshold st\<rparr>"
    by (simp add: validate_search_limits_def)
  from one two three four five six show ?thesis by blast
qed


text \<open>The hypotheses hold for the example query with the limit 50 and the threshold 0.7.\<close>

theorem limit_rejected_not_clamped_witness:
  "py_strip ex_query \<noteq> [] \<and> no_filters None
   \<and> cached_results ex_env (py_strip ex_query, Some 50, Some 0.7) ex_system = None
   \<and> fst (encode_single ex_env (py_strip ex_query) True (at_embed None ex_system)) = Inr [1, 0]
   \<and> fst (search ex_env ex_query (Some 50) (Some 0.7) None ex_system) =
        Inr (Success ex_query
               (post_process_results ascii_lower (replicate 50 (hit_result ex_hit)) ex_query)
               False)
   \<and> connects ex_env ex_system \<and> qdrant_filter ex_env None = Inr None
   \<and> search_similar ex_env [1, 0] (Some 50) (Some 0.7) None ex_system =
        (replicate 50 (hit_result ex_hit),
         emit (IndexSearch [1, 0] None 50 0.7) (ex_system\<lparr>client := True\<rparr>))
   \<and> valid_settings default_settings
   \<and> validate_search_limits default_settings (Some 50) (Some 0.7) =
        Inr \<lparr>v_limit = 50, v_score_threshold = 0.7\<rparr>
   \<and> validate_search_limits default_settings (Some 101) (Some 0.7) =
        Inl (HTTPException 400 ''Limit cannot exceed 100 results'')"
proof -
  let ?s3 = "snd (encode_single ex_env (py_strip ex_query) True (at_embed None ex_system))"
  note t = limit_rejected_not_clamped
    [where query = ex_query and f = None and env = ex_env and lmt = "Some 50"
       and thr = "Some 0.7" and s = ex_system and emb = "[1, 0]" and ?s3.0 = ?s3
       and qf = None and v = "[1, 0]" and st = default_settings]
  have q: "py_strip ex_query \<noteq> []" by (rule ex_query_nonblank)
  have nf: "no_filters None" by (simp add: no_filters_def)
  have cr: "cached_results ex_env (py_strip ex_query, Some 50, Some 0.7) ex_system = None"
    by (simp add: cached_results_def ex_system_def)
  have e1: "fst (encode_single ex_env (py_strip ex_query) True (at_embed None ex_system)) = Inr [1, 0]"
    by (simp add: ex_query_strip ex_encode_fresh)
  then have e2: "encode_single ex_env (py_strip ex_query) True (at_embed None ex_system)
      = (Inr [1, 0], ?s3)"
    by (metis prod.collapse)
  have "fst (search ex_env ex_query (Some 50) (Some 0.7) None ex_system) =
            Inr (Success (py_strip ex_query)
                   (post_process_results (str_lower ex_env)
                      (fst (search_similar ex_env [1, 0] (Some 50) (Some 0.7) None
                             (emit (Stage VECTOR_QUERY) ?s3)))
                      (py_strip ex_query))
                   False)"
    using t q cr e2 by blast
  then have se: "fst (search ex_env ex_query (Some 50) (Some 0.7) None ex_system) =
        Inr (Success ex_query
               (post_process_results ascii_lower (replicate 50 (hit_result ex_hit)) ex_query)
               False)"
    by (simp add: ex_query_strip ex_search_similar asked_limit_def) (simp add: ex_env_def)
  have c: "connects ex_env ex_system" by (simp add: connects_def ex_env_def)
  have qf: "qdrant_filter ex_env None = Inr None" by (simp add: qdrant_filter_def)
  have "search_similar ex_env [1, 0] (Some 50) (Some 0.7) None ex_system =
          ((case client_search ex_env [1, 0] None (asked_limit ex_env (Some 50))
                  (asked_threshold ex_env (Some 0.7)) of
              Inr hits \<Rightarrow> map hit_result hits | Inl e \<Rightarrow> []),
           emit (IndexSearch [1, 0] None (asked_limit ex_env (Some 50))
                   (asked_threshold ex_env (Some 0.7)))
             (ex_system\<lparr>client := True\<rparr>))"
    using t c qf by blast
  then have ss: "search_similar ex_env [1, 0] (Some 50) (Some 0.7) None ex_system =
        (replicate 50 (hit_result ex_hit),
         emit (IndexSearch [1, 0] None 50 0.7) (ex_system\<lparr>client := True\<rparr>))"
    by (simp add: asked_limit_def asked_threshold_def ex_env_def ex_index_def)
  have v: "valid_settings default_settings"
    by (simp add: valid_settings_def default_settings_def)
  have va: "validate_search_limits default_settings (Some 50) (Some 0.7) =
        Inr \<lparr>v_limit = 50, v_score_threshold = 0.7\<rparr>"
    by (simp add: validate_search_limits_def)
  have vb: "validate_search_limits default_settings (Some 101) (Some 0.7) =
        Inl (HTTPException 400 ''Limit cannot exceed 100 results'')"
    using t by simp
  from q nf cr e1 se c qf ss v va vb show ?thesis by blast
qed

text \<open>
  C8 as stated fails: a search call with the limit 150 succeeds and returns 150
  results, the index having been asked for 150; and \<open>validate_search_limits\<close> rejects
  the limit 150 where the claim lets the request succeed.
\<close>

theorem limit_above_maximum_counterexample:
  "fst (search ex_env ex_query (Some 150) None None ex_system) =
     Inr (Success ex_query
            (post_process_results ascii_lower (replicate 150 (hit_result ex_hit)) ex_query)
            False)
   \<and> length (post_process_results ascii_lower (replicate 150 (hit_result ex_hit)) ex_query) = 150
   \<and> search_similar ex_env [1, 0] (Some 150) None None ex_system =
       (replicate 150 (hit_result ex_hit),
        emit (IndexSearch [1, 0] None 150 0.5) (ex_system\<lparr>client := True\<rparr>))
   \<and> validate_search_limits default_settings (Some 150) None =
       Inl (HTTPException 400 ''Limit cannot exceed 100 results'')"
proof -
  let ?s3 = "snd (encode_single ex_env (py_strip ex_query) True (at_embed None ex_system))"
  have q: "py_strip ex_query \<noteq> []" by (rule ex_query_nonblank)
  have cr: "no_filters None \<longrightarrow>
      cached_results ex_env (py_strip ex_query, Some 150, None) ex_system = None"
    by (simp add: cached_results_def ex_system_def)
  have e2: "encode_single ex_env (py_strip ex_query) True (at_embed None ex_system)
      = (Inr [1, 0], ?s3)"
    using ex_encode_fresh [of None] by (metis ex_query_strip prod.collapse)
  have a: "fst (search ex_env ex_query (Some 150) None None ex_system) =
     Inr (Success ex_query
            (post_process_results ascii_lower (replicate 150 (hit_result ex_hit)) ex_query)
            False)"
    using search_to_index [OF q cr e2]
    by (simp add: ex_query_strip ex_search_similar asked_limit_def) (simp add: ex_env_def)
  have b: "length (post_process_results ascii_lower (replicate 150 (hit_result ex_hit)) ex_query)
      = 150"
    by (simp add: length_post_process)
  have c: "connects ex_env ex_system" by (simp add: connects_def ex_env_def)
  have qf: "qdrant_filter ex_env None = Inr None" by (simp add: qdrant_filter_def)
  have d: "search_similar ex_env [1, 0] (Some 150) None None ex_system =
       (replicate 150 (hit_result ex_hit),
        emit (IndexSearch [1, 0] None 150 0.5) (ex_system\<lparr>client := True\<rparr>))"
    by (simp add: search_similar_reached [OF c qf] asked_limit_def asked_threshold_def
        ex_env_fields ex_index_def default_settings_def)
  have e: "validate_search_limits default_settings (Some 150) None =
       Inl (HTTPException 400 ''Limit cannot exceed 100 results'')"
    by (simp add: validate_search_limits_def)
  from a b d e show ?thesis by blast
qed


section \<open>The embedding cache (C7, C3)\<close>



lemma map_of_delete_same: "map_of (AList.delete k al) k = None"
  by (simp add: delete_conv')














lemma corrupt_entry_removed:
  assumes "map_of (memory_cache c) (th t) = None"
    and "map_of (cache_dir c) (th t) = Some f"
    and "pickle_load f = Inl e"
  shows "cache_get th Unlinked t c =
           (Inr None, c\<lparr>cache_dir := AList.delete (th t) (cache_dir c)\<rparr>)"
    and "absent th t (snd (cache_get th Unlinked t c))"
  using assms by (simp_all add: cache_get_def absent_def map_of_delete_same)

lemma corrupt_entry_kept:
  assumes "map_of (memory_cache c) (th t) = None"
    and "map_of (cache_dir c) (th t) = Some f"
    and "pickle_load f = Inl e"
  shows "cache_get th UnlinkFails t c =
           (Inl (PyExc ''OSError'' ''cannot remove the cache file''), c)"
  using assms by (simp add: cache_get_def)

text \<open>
  C7. The claim is what the code sets out to do, and it holds when the corrupt file
  can be removed (\<open>corrupt_entry_removed\<close>). The handler of the failed load calls
  \<open>unlink\<close> unguarded, though: for a corrupt file that cannot be removed, \<open>get\<close> neither
  returns \<open>None\<close> nor removes the entry, it raises.
\<close>

theorem corrupt_entry_unlink_raises:
  "map_of (memory_cache ex_corrupt_cache) (ex_hash ex_hello) = None
   \<and> map_of (cache_dir ex_corrupt_cache) (ex_hash ex_hello) = Some Garbage
   \<and> pickle_load Garbage = Inl (PyExc ''UnpicklingError'' ''invalid load key'')
   \<and> cache_get ex_hash UnlinkFails ex_hello ex_corrupt_cache =
       (Inl (PyExc ''OSError'' ''cannot remove the cache file''), ex_corrupt_cache)
   \<and> cache_get ex_hash Unlinked ex_hello ex_corrupt_cache =
       (Inr None, \<lparr>memory_cache = [], cache_dir = []\<rparr>)"
  by (simp add: cache_get_def ex_corrupt_cache_def ex_hash_def pickle_load_def)











section \<open>More lemmas on the search call\<close>

lemma py_strip_blank: "py_strip q = [] \<longleftrightarrow> blank q"
proof
  assume "py_strip q = []"
  then have "dropWhile is_space (rev (dropWhile is_space q)) = []"
    by (simp add: py_strip_def)
  then have all: "\<forall>c\<in>set (dropWhile is_space q). is_space c"
    by (simp add: dropWhile_eq_Nil_conv)
  have "dropWhile is_space q = []"
  proof (rule ccontr)
    assume ne: "dropWhile is_space q \<noteq> []"
    then have "\<not> is_space (hd (dropWhile is_space q))" by (rule hd_dropWhile)
    moreover from ne have "hd (dropWhile is_space q) \<in> set (dropWhile is_space q)" by simp
    ultimately show False using all by blast
  qed
  then show "blank q" by (simp add: blank_def dropWhile_eq_Nil_conv)
next
  assume "blank q"
  then have d: "dropWhile is_space q = []" by (simp add: blank_def dropWhile_eq_Nil_conv)
  show "py_strip q = []" unfolding py_strip_def d by simp
qed

lemma encode_single_query_cache:
  "encode_single env t b (s\<lparr>query_cache := qc\<rparr>) =
     (fst (encode_single env t b s), (snd (encode_single env t b s))\<lparr>query_cache := qc\<rparr>)"
  by (auto simp: encode_single_def load_model_def emit_def Let_def
      split: sum.splits option.splits)

lemma encode_single_keeps_query_cache:
  "query_cache (snd (encode_single env t b s)) = query_cache s"
  by (auto simp: encode_single_def load_model_def emit_def Let_def
      split: sum.splits option.splits)

lemma get_client_query_cache:
  "get_client env (s\<lparr>query_cache := qc\<rparr>) =
     (fst (get_client env s), (snd (get_client env s))\<lparr>query_cache := qc\<rparr>)"
  by (auto simp: get_client_def split: connect_outcome.splits)

lemma search_similar_query_cache:
  "search_similar env v lmt thr f (s\<lparr>query_cache := qc\<rparr>) =
     (fst (search_similar env v lmt thr f s),
      (snd (search_similar env v lmt thr f s))\<lparr>query_cache := qc\<rparr>)"
  by (auto simp: search_similar_def get_client_query_cache emit_def Let_def
      split: sum.splits prod.splits)

lemma search_similar_keeps_query_cache:
  "query_cache (snd (search_similar env v lmt thr f s)) = query_cache s"
  by (auto simp: search_similar_def get_client_def emit_def Let_def
      split: sum.splits prod.splits connect_outcome.splits)

lemma emit_query_cache [simp]:
  "query_cache (emit e s) = query_cache s"
  "emit e (s\<lparr>query_cache := qc\<rparr>) = (emit e s)\<lparr>query_cache := qc\<rparr>"
  by (simp_all add: emit_def)

lemma filter_trace_emit:
  "filter P (trace (emit e s)) = filter P (trace s) @ (if P e then [e] else [])"
  by (simp add: emit_def)

lemma filter_trace_encode:
  assumes "\<not> P ModelLoad" and "\<forall>x. \<not> P (ProviderEncode x)"
  shows "filter P (trace (snd (encode_single env t b s))) = filter P (trace s)"
  using assms
  by (auto simp: encode_single_def load_model_def emit_def Let_def
      split: sum.splits option.splits)

lemma filter_trace_similar:
  assumes "\<forall>v qf l t. \<not> P (IndexSearch v qf l t)"
  shows "filter P (trace (snd (search_similar env v lmt thr f s))) = filter P (trace s)"
  using assms
  by (auto simp: search_similar_def get_client_def emit_def Let_def
      split: sum.splits prod.splits connect_outcome.splits)

lemma trace_store [simp]: "trace (store_results env k rs s) = trace s"
  by (simp add: store_results_def Let_def)


lemma is_cache_stage_simps [simp]:
  "is_cache_stage (Stage st) \<longleftrightarrow> st = CACHE_LOOKUP \<or> st = CACHE_STORE"
  "\<not> is_cache_stage ModelLoad" "\<not> is_cache_stage (ProviderEncode x)"
  "\<not> is_cache_stage (IndexSearch v qf l t)"
  by (simp_all add: is_cache_stage_def)

lemma search_with_filters:
  assumes "\<not> no_filters f" and "py_strip query \<noteq> []"
  shows "search env query lmt thr f s =
     (case encode_single env (py_strip query) True (at_embed f s) of
        (Inl e, s3) \<Rightarrow> (Inr (Failure (''Search failed: '' @ exc_msg e)), s3)
      | (Inr emb, s3) \<Rightarrow>
          if emb = [] then (Inr (Failure ''Failed to process query''), s3)
          else (Inr (Success (py_strip query)
                       (post_process_results (str_lower env)
                          (fst (search_similar env emb lmt thr f (emit (Stage VECTOR_QUERY) s3)))
                          (py_strip query))
                       False),
                emit (Stage RANK)
                  (snd (search_similar env emb lmt thr f (emit (Stage VECTOR_QUERY) s3)))))"
proof -
  from assms(2) have q: "query \<noteq> []" by (auto simp: py_strip_def)
  show ?thesis
    using assms q
    by (auto simp: search_def Let_def at_embed_def split: prod.splits sum.splits)
qed



lemma is_provider_call_simps [simp]:
  "is_provider_call (ProviderEncode x)" "\<not> is_provider_call (Stage st)"
  "\<not> is_provider_call ModelLoad" "\<not> is_provider_call (IndexSearch v qf l t)"
  by (simp_all add: is_provider_call_def)

lemma is_index_call_simps [simp]:
  "is_index_call (IndexSearch v qf l t)" "\<not> is_index_call (Stage st)"
  "\<not> is_index_call ModelLoad" "\<not> is_index_call (ProviderEncode x)"
  by (simp_all add: is_index_call_def)

lemma embedding_cache_frames [simp]:
  "embedding_cache (emit e s) = embedding_cache s"
  "embedding_cache (loaded s) = embedding_cache s"
  "embedding_cache (store_results env k rs s) = embedding_cache s"
  "embedding_cache (snd (search_similar env v lmt thr f s)) = embedding_cache s"
  by (auto simp: emit_def loaded_def store_results_def Let_def search_similar_def get_client_def
      split: sum.splits prod.splits connect_outcome.splits)






section \<open>Blank queries (C6)\<close>

text \<open>
  C6, as amended. For a query that is empty or consists only of whitespace, \<open>search\<close>
  returns the failure response with the message \<open>Empty query provided\<close> and no results;
  it raises nothing, so no typed error reaches the caller. No later stage runs: the two
  caches and the model are as before, no collaborator is called, and the trace grows by
  the validation stage alone.
\<close>

theorem blank_query_fails_validation:
  "(blank query \<longleftrightarrow> query = [] \<or> py_strip query = [])
   \<and> (blank query \<longrightarrow>
        search env query lmt thr f s =
          (Inr (Failure ''Empty query provided''), s\<lparr>trace := trace s @ [Stage VALIDATE]\<rparr>))"
proof -
  have a: "blank query \<longleftrightarrow> query = [] \<or> py_strip query = []"
    using py_strip_blank [of query] by (auto simp: blank_def)
  have b: "blank query \<longrightarrow>
        search env query lmt thr f s =
          (Inr (Failure ''Empty query provided''), s\<lparr>trace := trace s @ [Stage VALIDATE]\<rparr>)"
    using a search_blank [of query env lmt thr f s] by (simp add: emit_def)
  from a b show ?thesis by blast
qed

theorem blank_query_fails_validation_witness:
  "blank (of_ascii ''   '')
   \<and> search ex_env (of_ascii ''   '') (Some 5) None ex_filters ex_cached_system =
       (Inr (Failure ''Empty query provided''),
        ex_cached_system\<lparr>trace := trace ex_cached_system @ [Stage VALIDATE]\<rparr>)"
proof -
  have b: "blank (of_ascii ''   '')" by (simp add: blank_def of_ascii_def is_space_def)
  then show ?thesis
    using blank_query_fails_validation
      [of "of_ascii ''   ''" ex_env "Some 5" None ex_filters ex_cached_system]
    by blast
qed

text \<open>
  C6 as stated fails: the call returns a response, it does not raise a query error.
\<close>

theorem blank_query_no_exception_counterexample:
  "fst (search ex_env (of_ascii ''   '') None None None ex_system) =
     Inr (Failure ''Empty query provided'')
   \<and> fst (search ex_env (of_ascii ''   '') None None None ex_system) \<noteq>
       Inl (PyExc ''SearchQueryError'' ''Query cannot be empty'')
   \<and> \<not> isl (fst (search ex_env (of_ascii ''   '') None None None ex_system))"
proof -
  have "py_strip (of_ascii ''   '') = []"
    by (simp add: py_strip_def of_ascii_def is_space_def)
  then show ?thesis by (simp add: search_blank)
qed

section \<open>Filtered queries and the query cache (C4)\<close>

text \<open>
  C4. A search call that carries metadata filters (a filter dict that is not empty)
  leaves the query cache as it is, returns the same response whatever the query cache
  holds, never returns a response flagged as cached, and enters neither the cache lookup
  nor the cache store.
\<close>

theorem filtered_search_bypasses_query_cache:
  assumes "\<not> no_filters f"
  shows "query_cache (snd (search env query lmt thr f s)) = query_cache s
    \<and> fst (search env query lmt thr f (s\<lparr>query_cache := qc\<rparr>)) =
        fst (search env query lmt thr f s)
    \<and> (\<forall>q rs. fst (search env query lmt thr f s) \<noteq> Inr (Success q rs True))
    \<and> filter is_cache_stage (trace (snd (search env query lmt thr f s))) =
        filter is_cache_stage (trace s)"
proof (cases "py_strip query = []")
  case True
  then show ?thesis
    by (simp add: search_blank filter_trace_emit)
next
  case False
  note sf = search_with_filters [OF assms False]
  obtain r s3 where e: "encode_single env (py_strip query) True (at_embed f s) = (r, s3)"
    by (cases "encode_single env (py_strip query) True (at_embed f s)")
  have ae: "at_embed f (s\<lparr>query_cache := qc\<rparr>) = (at_embed f s)\<lparr>query_cache := qc\<rparr>"
    using assms by (simp add: at_embed_def)
  have e': "encode_single env (py_strip query) True (at_embed f (s\<lparr>query_cache := qc\<rparr>)) =
      (r, s3\<lparr>query_cache := qc\<rparr>)"
    by (simp add: ae encode_single_query_cache e)
  have q3: "query_cache s3 = query_cache s"
    using encode_single_keeps_query_cache [of env "py_strip query" True "at_embed f s"] e assms
    by (simp add: at_embed_def)
  have p1: "\<not> is_cache_stage ModelLoad" "\<forall>x. \<not> is_cache_stage (ProviderEncode x)"
    "\<forall>v qf l t. \<not> is_cache_stage (IndexSearch v qf l t)"
    by simp_all
  have t3: "filter is_cache_stage (trace s3) = filter is_cache_stage (trace s)"
    using filter_trace_encode [OF p1(1) p1(2), of env "py_strip query" True "at_embed f s"] e assms
    by (simp add: at_embed_def filter_trace_emit)
  show ?thesis
  proof (cases r)
    case (Inl x)
    then show ?thesis
      using e e' q3 t3 by (simp add: sf)
  next
    case (Inr emb)
    show ?thesis
    proof (cases "emb = []")
      case True
      then show ?thesis using Inr e e' q3 t3 by (simp add: sf)
    next
      case False
      let ?s4 = "snd (search_similar env emb lmt thr f (emit (Stage VECTOR_QUERY) s3))"
      have q4: "query_cache ?s4 = query_cache s"
        by (simp add: search_similar_keeps_query_cache q3)
      have t4: "filter is_cache_stage (trace ?s4) = filter is_cache_stage (trace s)"
        using filter_trace_similar [OF p1(3)]
        by (simp add: filter_trace_emit t3)
      have f4: "fst (search_similar env emb lmt thr f
                       (emit (Stage VECTOR_QUERY) (s3\<lparr>query_cache := qc\<rparr>))) =
                fst (search_similar env emb lmt thr f (emit (Stage VECTOR_QUERY) s3))"
        by (simp add: search_similar_query_cache)
      show ?thesis
        using Inr False e e' q4 t4 f4
        by (simp add: sf filter_trace_emit)
    qed
  qed
qed


lemma ex_filters_facts:
  "\<not> no_filters ex_filters"
  "qdrant_filter ex_env ex_filters =
     Inr (Some [MatchValue (of_ascii ''file_name'') (VStr (of_ascii ''guide.txt''))])"
  by (simp_all add: ex_filters_def no_filters_def qdrant_filter_def ex_env_def)

lemma ex_search_similar_filtered:
  "fst (search_similar ex_env v lmt thr ex_filters s) =
     replicate (nat (asked_limit ex_env lmt)) (hit_result ex_hit)"
proof -
  have c: "connects ex_env s" by (simp add: connects_def ex_env_def)
  show ?thesis
    by (simp add: search_similar_reached [OF c ex_filters_facts(2)] ex_env_fields ex_index_def)
qed

theorem filtered_search_bypasses_query_cache_witness:
  "\<not> no_filters ex_filters
   \<and> cached_results ex_env (ex_query, None, None) ex_cached_system = Some [hit_result ex_hit]
   \<and> query_cache (snd (search ex_env ex_query None None ex_filters ex_cached_system)) =
       query_cache ex_cached_system
   \<and> fst (search ex_env ex_query None None ex_filters ex_cached_system) =
       fst (search ex_env ex_query None None ex_filters ex_system)
   \<and> fst (search ex_env ex_query None None ex_filters ex_system) =
       Inr (Success ex_query
              (post_process_results ascii_lower (replicate 10 (hit_result ex_hit)) ex_query)
              False)"
proof -
  note t = filtered_search_bypasses_query_cache
    [OF ex_filters_facts(1), of ex_env ex_query None None ex_cached_system "[]"]
  have c: "cached_results ex_env (ex_query, None, None) ex_cached_system = Some [hit_result ex_hit]"
    by (simp add: cached_results_def ex_cached_system_def ex_env_fields cache_ttl_def)
  have a: "query_cache (snd (search ex_env ex_query None None ex_filters ex_cached_system)) =
       query_cache ex_cached_system"
    using t by blast
  have e: "ex_cached_system\<lparr>query_cache := []\<rparr> = ex_system"
    by (simp add: ex_cached_system_def ex_system_def)
  have b: "fst (search ex_env ex_query None None ex_filters ex_cached_system) =
       fst (search ex_env ex_query None None ex_filters ex_system)"
    using t unfolding e by simp
  let ?s3 = "snd (encode_single ex_env (py_strip ex_query) True (at_embed ex_filters ex_system))"
  have e2: "encode_single ex_env (py_strip ex_query) True (at_embed ex_filters ex_system)
      = (Inr [1, 0], ?s3)"
    using ex_encode_fresh [of ex_filters] by (metis ex_query_strip prod.collapse)
  have nf: "no_filters ex_filters \<longrightarrow>
      cached_results ex_env (py_strip ex_query, None, None) ex_system = None"
    by (simp add: ex_filters_facts)
  have d: "fst (search ex_env ex_query None None ex_filters ex_system) =
       Inr (Success ex_query
              (post_process_results ascii_lower (replicate 10 (hit_result ex_hit)) ex_query)
              False)"
    using search_to_index [OF ex_query_nonblank nf e2]
    by (simp add: ex_query_strip ex_search_similar_filtered asked_limit_def ex_env_fields
        default_settings_def)
  from ex_filters_facts(1) c a b d show ?thesis by blast
qed

section \<open>A failing embedding provider (C2)\<close>








end
